theory Spec2Isabelle
  imports Main "HOL-Library.AList"
begin

section \<open>Active-array bookkeeping of \<^verbatim>\<open>pyvista.core.dataset.DataSet\<close>\<close>

text \<open>
  The development embeds the active-array bookkeeping of
  \<^verbatim>\<open>src/pyvista/core/dataset.py\<close>: the properties \<^verbatim>\<open>active_scalars_info\<close>,
  \<^verbatim>\<open>active_vectors_info\<close>, \<^verbatim>\<open>active_tensors_info\<close>, \<^verbatim>\<open>array_names\<close> and the methods
  \<^verbatim>\<open>set_active_scalars\<close>, \<^verbatim>\<open>set_active_vectors\<close>, \<^verbatim>\<open>set_active_tensors\<close>,
  \<^verbatim>\<open>rename_array\<close> and \<^verbatim>\<open>copy_meta_from\<close>.

  Python mutates the dataset in place; here every operation takes the dataset and returns
  the updated one.  A method that can raise returns a sum: \<open>Inr\<close> carries the dataset after
  a normal return, \<open>Inl\<close> carries the error together with the dataset as the raise leaves it
  (Python does not roll mutations back).
\<close>

subsection \<open>Data model\<close>

text \<open>
  Modelled from the spec: \<^verbatim>\<open>pyvista.utilities.FieldAssociation\<close> is imported by
  \<^verbatim>\<open>dataset.py\<close> but not defined there; the spec gives the enum \<open>{POINT, CELL, NONE}\<close>,
  \<open>NONE\<close> being the field-data association.
\<close>

datatype FieldAssociation = POINT | CELL | NONE

text \<open>Class \<^verbatim>\<open>ActiveArrayInfo\<close>: two fields, equality on both (\<^verbatim>\<open>__eq__\<close>).\<close>

datatype ActiveArrayInfo =
  ActiveArrayInfo (association: FieldAssociation) (name: "string option")

text \<open>
  Modelled from the spec: the native attribute table behind \<^verbatim>\<open>GetPointData()\<close> and
  \<^verbatim>\<open>GetCellData()\<close> (VTK, wrapped by \<^verbatim>\<open>DataSetAttributes\<close>; neither is in src/).  The spec
  describes a mapping from unique array names to arrays with ordered iteration (insertion
  order) and one active-array pointer per role.  The array data is kept abstract (\<open>'a\<close>).
\<close>

record 'a vtkAttributes =
  arrays :: "(string \<times> 'a) list"
  ActiveScalars :: "string option"
  ActiveVectors :: "string option"
  ActiveTensors :: "string option"

text \<open>
  The state of a \<^verbatim>\<open>DataSet\<close>: the three native tables and the attributes set in
  \<^verbatim>\<open>DataSet.__init__\<close> (the leading underscore of the Python names is written \<open>m_\<close>).
\<close>

record ('a, 't) DataSet =
  PointData :: "'a vtkAttributes"
  CellData :: "'a vtkAttributes"
  FieldData :: "(string \<times> 'a) list"
  m_last_active_scalars_name :: "string option"
  m_active_scalars_info :: ActiveArrayInfo
  m_active_vectors_info :: ActiveArrayInfo
  m_active_tensors_info :: ActiveArrayInfo
  m_textures :: "(string \<times> 't) list"

text \<open>The three roles an array can be active for.\<close>

datatype role = Scalars | Vectors | Tensors

text \<open>
  The error taxonomy of the spec.  In \<^verbatim>\<open>dataset.py\<close> a \<^verbatim>\<open>KeyError\<close> is \<open>ArrayNotFound\<close>, the
  \<^verbatim>\<open>ValueError\<close> "Data field ... not usable" is \<open>InvalidField\<close> and the \<^verbatim>\<open>ValueError\<close>
  "... could not be set as the active ..." is \<open>ActivationError\<close>.
\<close>

datatype error = ArrayNotFound | InvalidField | ActivationError

text \<open>
  Modelled from the spec: the status the native table answers when asked to make a named
  array active (\<^verbatim>\<open>SetActiveScalars\<close>, \<^verbatim>\<open>SetActiveVectors\<close>, \<^verbatim>\<open>SetActiveTensors\<close> of VTK, not in
  src/).  The spec only says that a negative status is a rejection, so the status is a
  parameter of the model: any function of the role, the association, the table and the name.
\<close>

type_synonym 'a native = "role \<Rightarrow> FieldAssociation \<Rightarrow> 'a vtkAttributes \<Rightarrow> string \<Rightarrow> int"

subsection \<open>Tables\<close>

text \<open>
  Modelled from the spec: the operations of \<^verbatim>\<open>DataSetAttributes\<close> that \<^verbatim>\<open>dataset.py\<close> uses
  (\<^verbatim>\<open>keys\<close>, iteration, \<^verbatim>\<open>pop\<close>, item assignment); the spec gives membership test, get, set,
  delete and iteration in insertion order.  Item assignment replaces the value of a key in
  place and appends a new key (\<^const>\<open>AList.update\<close>).
\<close>

definition keys :: "(string \<times> 'a) list \<Rightarrow> string list" where
  "keys al = map fst al"

definition pop :: "string \<Rightarrow> (string \<times> 'a) list \<Rightarrow> ('a \<times> (string \<times> 'a) list) option" where
  "pop k al = (case map_of al k of None \<Rightarrow> None | Some v \<Rightarrow> Some (v, AList.delete k al))"

definition setitem :: "string \<Rightarrow> 'a \<Rightarrow> (string \<times> 'a) list \<Rightarrow> (string \<times> 'a) list" where
  "setitem k v al = AList.update k v al"

text \<open>
  \<^verbatim>\<open>self.point_arrays\<close> and \<^verbatim>\<open>self.cell_arrays\<close> wrap the native table of an association;
  \<open>attributes\<close> reads that table and \<open>attributes_update\<close> writes it back.
\<close>

fun attributes :: "FieldAssociation \<Rightarrow> ('a, 't) DataSet \<Rightarrow> 'a vtkAttributes" where
  "attributes POINT d = PointData d"
| "attributes CELL d = CellData d"
| "attributes NONE d = \<lparr>arrays = FieldData d, ActiveScalars = None, ActiveVectors = None,
     ActiveTensors = None\<rparr>"

fun attributes_update ::
  "FieldAssociation \<Rightarrow> 'a vtkAttributes \<Rightarrow> ('a, 't) DataSet \<Rightarrow> ('a, 't) DataSet" where
  "attributes_update POINT t d = d\<lparr>PointData := t\<rparr>"
| "attributes_update CELL t d = d\<lparr>CellData := t\<rparr>"
| "attributes_update NONE t d = d\<lparr>FieldData := arrays t\<rparr>"

subsection \<open>Lookup and the native activation step\<close>

text \<open>
  Modelled from the spec: \<^verbatim>\<open>pyvista.utilities.get_array\<close>, called by \<^verbatim>\<open>dataset.py\<close> with
  \<^verbatim>\<open>info=True\<close> and without \<^verbatim>\<open>err\<close> (the function is not in src/).  The spec's
  \<open>lookup(name, preference)\<close> searches the point, cell and field tables and lets the
  preference decide when the name is in more than one table: the answer is then what the
  preferred table holds under the name, with the preferred association.  A name in one
  table is answered with that table's array and association.  A name in no table is
  answered with no array and no association: \<^verbatim>\<open>dataset.py\<close> asks for an exception only in
  \<^verbatim>\<open>DataSet.get_array\<close> (\<^verbatim>\<open>err=True\<close>) and handles the empty answer itself, in the final
  \<^verbatim>\<open>else\<close> of \<^verbatim>\<open>rename_array\<close> and of the three setters.
\<close>

definition get_array ::
  "('a, 't) DataSet \<Rightarrow> string \<Rightarrow> FieldAssociation \<Rightarrow> 'a option \<times> FieldAssociation option" where
  "get_array d n preference =
     (let parr = map_of (arrays (PointData d)) n;
          carr = map_of (arrays (CellData d)) n;
          farr = map_of (FieldData d) n
      in if 1 < length (filter (\<lambda>arr. arr \<noteq> None) [parr, carr, farr])
         then (case preference of
                 CELL \<Rightarrow> (carr, Some CELL)
               | POINT \<Rightarrow> (parr, Some POINT)
               | NONE \<Rightarrow> (farr, Some NONE))
         else if parr \<noteq> None then (parr, Some POINT)
         else if carr \<noteq> None then (carr, Some CELL)
         else if farr \<noteq> None then (farr, Some NONE)
         else (None, None))"

text \<open>The active-array pointer of a role in a native table.\<close>

fun set_pointer :: "role \<Rightarrow> string option \<Rightarrow> 'a vtkAttributes \<Rightarrow> 'a vtkAttributes" where
  "set_pointer Scalars p t = t\<lparr>ActiveScalars := p\<rparr>"
| "set_pointer Vectors p t = t\<lparr>ActiveVectors := p\<rparr>"
| "set_pointer Tensors p t = t\<lparr>ActiveTensors := p\<rparr>"

text \<open>
  Modelled from the spec: the native \<^verbatim>\<open>SetActiveScalars\<close>, \<^verbatim>\<open>SetActiveVectors\<close> and
  \<^verbatim>\<open>SetActiveTensors\<close> (VTK, not in src/), the spec's \<open>apply_active\<close>.  With no name the
  pointer is cleared.  A pointer references an array of its own table or nothing (the
  spec's invariant), so a name the table does not hold is rejected.  For a name it holds
  the table answers its status: a negative status is a rejection and leaves the table as
  it was, any other status moves the pointer to the name.
\<close>

definition SetActive ::
  "'a native \<Rightarrow> role \<Rightarrow> FieldAssociation \<Rightarrow> 'a vtkAttributes \<Rightarrow> string option
     \<Rightarrow> int \<times> 'a vtkAttributes" where
  "SetActive st r a t nm =
     (case nm of
        None \<Rightarrow> (- 1, set_pointer r None t)
      | Some n \<Rightarrow>
          if n \<notin> set (keys (arrays t)) then (- 1, t)
          else (let ret = st r a t n
                in if ret < 0 then (ret, t) else (ret, set_pointer r (Some n) t)))"

subsection \<open>\<^verbatim>\<open>active_scalars_info\<close>\<close>

text \<open>The set \<^verbatim>\<open>exclude\<close> of \<^verbatim>\<open>active_scalars_info\<close>.\<close>

definition exclude :: "string set" where
  "exclude = {''__custom_rgba'', ''Normals'', ''vtkOriginalPointIds'', ''TCoords''}"

text \<open>
  \<^verbatim>\<open>field, name = self._active_scalars_info; if name in exclude: name =
  self._last_active_scalars_name\<close>: the name the validity test looks at.
\<close>

definition substituted_name :: "('a, 't) DataSet \<Rightarrow> string option" where
  "substituted_name d =
     (case name (m_active_scalars_info d) of
        None \<Rightarrow> None
      | Some n \<Rightarrow> if n \<in> exclude then m_last_active_scalars_name d else Some n)"

text \<open>\<^verbatim>\<open>next((arr for arr in attributes if arr not in exclude), None)\<close>.\<close>

definition first_arr :: "'a vtkAttributes \<Rightarrow> string option" where
  "first_arr t = find (\<lambda>arr. arr \<notin> exclude) (keys (arrays t))"

text \<open>
  The loop \<^verbatim>\<open>for attributes in (self.point_arrays, self.cell_arrays)\<close>: the first table with
  a name outside \<^verbatim>\<open>exclude\<close> ends the loop (\<^verbatim>\<open>break\<close>); \<open>None\<close> is the loop running to its end,
  where Python takes the \<^verbatim>\<open>else\<close> branch.  The info is recorded first; then the assignment
  \<^verbatim>\<open>attributes.active_scalars = first_arr\<close> asks the native table to make the array the active
  scalars and does not look at the status.

  Modelled from the spec: the setter of \<^verbatim>\<open>DataSetAttributes\<close> (not in src/) is the native
  activation step, the status dropped.
\<close>

fun find_first_available ::
  "'a native \<Rightarrow> ('a, 't) DataSet \<Rightarrow> FieldAssociation list \<Rightarrow> ('a, 't) DataSet option" where
  "find_first_available st d [] = None"
| "find_first_available st d (a # as) =
     (case first_arr (attributes a d) of
        Some arr \<Rightarrow>
          (let d1 = d\<lparr>m_active_scalars_info := ActiveArrayInfo a (Some arr)\<rparr>
           in Some (attributes_update a
                      (snd (SetActive st Scalars a (attributes a d1) (Some arr))) d1))
      | None \<Rightarrow> find_first_available st d as)"

definition active_scalars_info ::
  "'a native \<Rightarrow> ('a, 't) DataSet \<Rightarrow> ActiveArrayInfo \<times> ('a, 't) DataSet" where
  "active_scalars_info st d =
     (let field = association (m_active_scalars_info d);
          nm = substituted_name d;
          all_arrays = keys (arrays (PointData d)) @ keys (arrays (CellData d));
          d' = (if (case nm of None \<Rightarrow> True | Some n \<Rightarrow> n \<notin> set all_arrays)
                then (case find_first_available st d [POINT, CELL] of
                        Some d1 \<Rightarrow> d1
                      | None \<Rightarrow> d\<lparr>m_active_scalars_info := ActiveArrayInfo field None\<rparr>)
                else d)
      in (m_active_scalars_info d', d'))"

subsection \<open>\<^verbatim>\<open>set_active_scalars\<close>, \<^verbatim>\<open>set_active_vectors\<close>, \<^verbatim>\<open>set_active_tensors\<close>\<close>

text \<open>
  \<^verbatim>\<open>set_active_scalars(self, name, preference='cell')\<close>.  The property
  \<^verbatim>\<open>self.active_scalars_info\<close> is read (and may re-resolve) after \<^verbatim>\<open>get_array\<close> and before
  the native call; \<^verbatim>\<open>_last_active_scalars_name\<close> is assigned before the association is
  looked at and before the status is known.  An association that is neither POINT nor
  CELL, the empty answer of \<^verbatim>\<open>get_array\<close> included, takes the final \<^verbatim>\<open>else\<close>.
\<close>

definition set_active_scalars ::
  "'a native \<Rightarrow> ('a, 't) DataSet \<Rightarrow> string option \<Rightarrow> FieldAssociation
     \<Rightarrow> (error \<times> ('a, 't) DataSet) + ('a, 't) DataSet" where
  "set_active_scalars st d nm preference =
     (case nm of
        None \<Rightarrow>
          (let d1 = d\<lparr>CellData := snd (SetActive st Scalars CELL (CellData d) None)\<rparr>;
               d2 = d1\<lparr>PointData := snd (SetActive st Scalars POINT (PointData d1) None)\<rparr>
           in Inr d2)
      | Some n \<Rightarrow>
          (let (_, field) = get_array d n preference;
               (info, d1) = active_scalars_info st d;
               d2 = d1\<lparr>m_last_active_scalars_name := name info\<rparr>
           in case field of
                Some POINT \<Rightarrow>
                  (let (ret, t) = SetActive st Scalars POINT (PointData d2) (Some n);
                       d3 = d2\<lparr>PointData := t\<rparr>
                   in if ret < 0 then Inl (ActivationError, d3)
                      else Inr (d3\<lparr>m_active_scalars_info := ActiveArrayInfo POINT (Some n)\<rparr>))
              | Some CELL \<Rightarrow>
                  (let (ret, t) = SetActive st Scalars CELL (CellData d2) (Some n);
                       d3 = d2\<lparr>CellData := t\<rparr>
                   in if ret < 0 then Inl (ActivationError, d3)
                      else Inr (d3\<lparr>m_active_scalars_info := ActiveArrayInfo CELL (Some n)\<rparr>))
              | _ \<Rightarrow> Inl (InvalidField, d2)))"

text \<open>\<^verbatim>\<open>set_active_vectors(self, name, preference='point')\<close>.\<close>

definition set_active_vectors ::
  "'a native \<Rightarrow> ('a, 't) DataSet \<Rightarrow> string option \<Rightarrow> FieldAssociation
     \<Rightarrow> (error \<times> ('a, 't) DataSet) + ('a, 't) DataSet" where
  "set_active_vectors st d nm preference =
     (case nm of
        None \<Rightarrow>
          (let d1 = d\<lparr>CellData := snd (SetActive st Vectors CELL (CellData d) None)\<rparr>;
               d2 = d1\<lparr>PointData := snd (SetActive st Vectors POINT (PointData d1) None)\<rparr>;
               field = POINT
           in Inr (d2\<lparr>m_active_vectors_info := ActiveArrayInfo field None\<rparr>))
      | Some n \<Rightarrow>
          (let (_, field) = get_array d n preference
           in case field of
                Some POINT \<Rightarrow>
                  (let (ret, t) = SetActive st Vectors POINT (PointData d) (Some n);
                       d1 = d\<lparr>PointData := t\<rparr>
                   in if ret < 0 then Inl (ActivationError, d1)
                      else Inr (d1\<lparr>m_active_vectors_info := ActiveArrayInfo POINT (Some n)\<rparr>))
              | Some CELL \<Rightarrow>
                  (let (ret, t) = SetActive st Vectors CELL (CellData d) (Some n);
                       d1 = d\<lparr>CellData := t\<rparr>
                   in if ret < 0 then Inl (ActivationError, d1)
                      else Inr (d1\<lparr>m_active_vectors_info := ActiveArrayInfo CELL (Some n)\<rparr>))
              | _ \<Rightarrow> Inl (InvalidField, d)))"

text \<open>\<^verbatim>\<open>set_active_tensors(self, name, preference='point')\<close>.\<close>

definition set_active_tensors ::
  "'a native \<Rightarrow> ('a, 't) DataSet \<Rightarrow> string option \<Rightarrow> FieldAssociation
     \<Rightarrow> (error \<times> ('a, 't) DataSet) + ('a, 't) DataSet" where
  "set_active_tensors st d nm preference =
     (case nm of
        None \<Rightarrow>
          (let d1 = d\<lparr>CellData := snd (SetActive st Tensors CELL (CellData d) None)\<rparr>;
               d2 = d1\<lparr>PointData := snd (SetActive st Tensors POINT (PointData d1) None)\<rparr>;
               field = POINT
           in Inr (d2\<lparr>m_active_tensors_info := ActiveArrayInfo field None\<rparr>))
      | Some n \<Rightarrow>
          (let (_, field) = get_array d n preference
           in case field of
                Some POINT \<Rightarrow>
                  (let (ret, t) = SetActive st Tensors POINT (PointData d) (Some n);
                       d1 = d\<lparr>PointData := t\<rparr>
                   in if ret < 0 then Inl (ActivationError, d1)
                      else Inr (d1\<lparr>m_active_tensors_info := ActiveArrayInfo POINT (Some n)\<rparr>))
              | Some CELL \<Rightarrow>
                  (let (ret, t) = SetActive st Tensors CELL (CellData d) (Some n);
                       d1 = d\<lparr>CellData := t\<rparr>
                   in if ret < 0 then Inl (ActivationError, d1)
                      else Inr (d1\<lparr>m_active_tensors_info := ActiveArrayInfo CELL (Some n)\<rparr>))
              | _ \<Rightarrow> Inl (InvalidField, d)))"

subsection \<open>\<^verbatim>\<open>array_names\<close>, \<^verbatim>\<open>active_vectors_info\<close>, \<^verbatim>\<open>active_tensors_info\<close>\<close>

text \<open>
  \<^verbatim>\<open>array_names\<close>: field, point and cell names, with the active scalars' name moved to
  the front.  The property \<^verbatim>\<open>self.active_scalars_name\<close> is read once for \<^verbatim>\<open>names.remove\<close>
  and, when that does not raise \<^verbatim>\<open>ValueError\<close>, once more for \<^verbatim>\<open>names.insert\<close>; each read
  runs \<^verbatim>\<open>active_scalars_info\<close>.  A Python list can hold \<^verbatim>\<open>None\<close>, so the elements are optional
  names.
\<close>

definition array_names ::
  "'a native \<Rightarrow> ('a, 't) DataSet \<Rightarrow> string option list \<times> ('a, 't) DataSet" where
  "array_names st d =
     (let names = map Some (keys (FieldData d) @ keys (arrays (PointData d))
                              @ keys (arrays (CellData d)));
          (info1, d1) = active_scalars_info st d
      in if name info1 \<in> set names
         then (let names1 = remove1 (name info1) names;
                   (info2, d2) = active_scalars_info st d1
               in (name info2 # names1, d2))
         else (names, d1))"

text \<open>The property \<^verbatim>\<open>active_vectors_info\<close>; the call uses the default preference \<^verbatim>\<open>'point'\<close>.\<close>

definition active_vectors_info ::
  "'a native \<Rightarrow> ('a, 't) DataSet
     \<Rightarrow> (error \<times> ('a, 't) DataSet) + (ActiveArrayInfo \<times> ('a, 't) DataSet)" where
  "active_vectors_info st d =
     (if name (m_active_vectors_info d) = None
      then (let (names, d1) = array_names st d
            in if Some ''Normals'' \<in> set names
               then (case set_active_vectors st d1 (Some ''Normals'') POINT of
                       Inl e \<Rightarrow> Inl e
                     | Inr d2 \<Rightarrow> Inr (m_active_vectors_info d2, d2))
               else Inr (m_active_vectors_info d1, d1))
      else Inr (m_active_vectors_info d, d))"

text \<open>The property \<^verbatim>\<open>active_tensors_info\<close>.\<close>

definition active_tensors_info :: "('a, 't) DataSet \<Rightarrow> ActiveArrayInfo" where
  "active_tensors_info d = m_active_tensors_info d"

subsection \<open>\<^verbatim>\<open>rename_array\<close> and \<^verbatim>\<open>copy_meta_from\<close>\<close>

text \<open>
  \<^verbatim>\<open>rename_array(self, old_name, new_name, preference='cell')\<close>.  The property
  \<^verbatim>\<open>self.active_scalars_name\<close> is read before the association is looked at.  The three
  branches on \<^verbatim>\<open>field\<close> do the same to the table of that association; \<^verbatim>\<open>pop\<close> of a name the
  table does not hold raises \<^verbatim>\<open>KeyError\<close>; the empty answer of \<^verbatim>\<open>get_array\<close> takes the final
  \<^verbatim>\<open>else: raise KeyError\<close>.
\<close>

definition rename_array ::
  "'a native \<Rightarrow> ('a, 't) DataSet \<Rightarrow> string \<Rightarrow> string \<Rightarrow> FieldAssociation
     \<Rightarrow> (error \<times> ('a, 't) DataSet) + ('a, 't) DataSet" where
  "rename_array st d old_name new_name preference =
     (let (_, field) = get_array d old_name preference;
          (info, d1) = active_scalars_info st d;
          was_active = (name info = Some old_name)
      in case field of
           None \<Rightarrow> Inl (ArrayNotFound, d1)
         | Some a \<Rightarrow>
             (case pop old_name (arrays (attributes a d1)) of
                None \<Rightarrow> Inl (ArrayNotFound, d1)
              | Some (arr, rest) \<Rightarrow>
                  (let d2 = attributes_update a
                              ((attributes a d1)\<lparr>arrays := setitem new_name arr rest\<rparr>) d1
                   in if was_active then set_active_scalars st d2 (Some new_name) a
                      else Inr d2)))"

text \<open>\<^verbatim>\<open>clear_textures\<close>: the dictionary \<^verbatim>\<open>_textures\<close> is emptied in place.\<close>

definition clear_textures :: "('a, 't) DataSet \<Rightarrow> ('a, 't) DataSet" where
  "clear_textures d = d\<lparr>m_textures := []\<rparr>"



text \<open>\<^verbatim>\<open>DataSet.__init__\<close>: the bookkeeping of a dataset built on given tables.\<close>

definition init :: "'a vtkAttributes \<Rightarrow> 'a vtkAttributes \<Rightarrow> (string \<times> 'a) list \<Rightarrow> ('a, 't) DataSet" where
  "init pd cd fd =
     \<lparr>PointData = pd, CellData = cd, FieldData = fd,
      m_last_active_scalars_name = None,
      m_active_scalars_info = ActiveArrayInfo POINT None,
      m_active_vectors_info = ActiveArrayInfo POINT None,
      m_active_tensors_info = ActiveArrayInfo POINT None,
      m_textures = []\<rparr>"

text \<open>A native table holding the given arrays with nothing active.\<close>

definition fresh_table :: "(string \<times> 'a) list \<Rightarrow> 'a vtkAttributes" where
  "fresh_table al =
     \<lparr>arrays = al, ActiveScalars = None, ActiveVectors = None, ActiveTensors = None\<rparr>"

subsection \<open>Notions used in the statements\<close>

abbreviation point_keys :: "('a, 't) DataSet \<Rightarrow> string list" where
  "point_keys d \<equiv> keys (arrays (PointData d))"

abbreviation cell_keys :: "('a, 't) DataSet \<Rightarrow> string list" where
  "cell_keys d \<equiv> keys (arrays (CellData d))"

abbreviation field_keys :: "('a, 't) DataSet \<Rightarrow> string list" where
  "field_keys d \<equiv> keys (FieldData d)"

text \<open>
  The test \<^verbatim>\<open>name is None or name not in all_arrays\<close> of \<^verbatim>\<open>active_scalars_info\<close>: the
  recorded name, after the substitution, is absent or in neither the point nor the cell
  table.
\<close>

definition stale :: "('a, 't) DataSet \<Rightarrow> bool" where
  "stale d \<longleftrightarrow>
     (case substituted_name d of
        None \<Rightarrow> True
      | Some n \<Rightarrow> n \<notin> set (point_keys d) \<union> set (cell_keys d))"

text \<open>
  The spec's words for the fallback: \<open>a\<close> is the first name, in iteration order, that is
  not in the reserved exclusion set.
\<close>

definition first_unreserved :: "string list \<Rightarrow> string \<Rightarrow> bool" where
  "first_unreserved ks a \<longleftrightarrow>
     (\<exists>i<length ks. ks ! i = a \<and> a \<notin> exclude \<and> (\<forall>j<i. ks ! j \<in> exclude))"

text \<open>
  A native table after it was asked to make \<open>n\<close> active for a role: the pointer moves
  unless the status is negative.
\<close>

definition asked ::
  "'a native \<Rightarrow> role \<Rightarrow> FieldAssociation \<Rightarrow> string \<Rightarrow> 'a vtkAttributes \<Rightarrow> 'a vtkAttributes" where
  "asked st r a n t = (if st r a t n < 0 then t else set_pointer r (Some n) t)"

text \<open>The dataset after \<^verbatim>\<open>set_active_scalars(None)\<close>: both active-scalars pointers cleared.\<close>

definition clear_scalars_pointers :: "('a, 't) DataSet \<Rightarrow> ('a, 't) DataSet" where
  "clear_scalars_pointers d =
     d\<lparr>CellData := (CellData d)\<lparr>ActiveScalars := None\<rparr>,
       PointData := (PointData d)\<lparr>ActiveScalars := None\<rparr>\<rparr>"

text \<open>The dataset after \<^verbatim>\<open>set_active_vectors(None)\<close>.\<close>

definition clear_vectors :: "('a, 't) DataSet \<Rightarrow> ('a, 't) DataSet" where
  "clear_vectors d =
     d\<lparr>CellData := (CellData d)\<lparr>ActiveVectors := None\<rparr>,
       PointData := (PointData d)\<lparr>ActiveVectors := None\<rparr>,
       m_active_vectors_info := ActiveArrayInfo POINT None\<rparr>"

text \<open>The dataset after the array \<open>n\<close> of the table \<open>field\<close> was made the active vectors.\<close>

definition with_active_vectors ::
  "FieldAssociation \<Rightarrow> string \<Rightarrow> ('a, 't) DataSet \<Rightarrow> ('a, 't) DataSet" where
  "with_active_vectors field n d =
     (attributes_update field ((attributes field d)\<lparr>ActiveVectors := Some n\<rparr>) d)
       \<lparr>m_active_vectors_info := ActiveArrayInfo field (Some n)\<rparr>"

subsection \<open>Example datasets\<close>

text \<open>A status that accepts every activation, and one that rejects the array \<open>b\<close>.\<close>

definition accept_all :: "nat native" where
  "accept_all r a t n = 0"

definition reject_b :: "nat native" where
  "reject_b r a t n = (if n = ''b'' then - 1 else 0)"

text \<open>A new dataset whose point names are all reserved and whose cell table has \<open>c\<close>.\<close>

definition ex_cell_only :: "(nat, nat) DataSet" where
  "ex_cell_only = init (fresh_table [(''Normals'', 1)]) (fresh_table [(''TCoords'', 2), (''c'', 3)]) []"

text \<open>A new dataset with the single point array \<open>b\<close>.\<close>

definition ex_b :: "(nat, nat) DataSet" where
  "ex_b = init (fresh_table [(''b'', 1)]) (fresh_table []) []"

text \<open>A new dataset with the single point array \<open>a\<close>, and the same after one read of
  \<^verbatim>\<open>active_scalars_info\<close>.\<close>

definition ex_a :: "(nat, nat) DataSet" where
  "ex_a = init (fresh_table [(''a'', 1)]) (fresh_table []) []"

definition ex_a_active :: "(nat, nat) DataSet" where
  "ex_a_active =
     ex_a\<lparr>PointData := (fresh_table [(''a'', 1)])\<lparr>ActiveScalars := Some ''a''\<rparr>,
          m_active_scalars_info := ActiveArrayInfo POINT (Some ''a'')\<rparr>"

text \<open>The same dataset after \<^verbatim>\<open>rename_array('a', 'TCoords')\<close>.\<close>

definition ex_a_tcoords :: "(nat, nat) DataSet" where
  "ex_a_tcoords =
     ex_a\<lparr>PointData := (fresh_table [(''TCoords'', 1)])\<lparr>ActiveScalars := Some ''TCoords''\<rparr>,
          m_active_scalars_info := ActiveArrayInfo POINT (Some ''TCoords'')\<rparr>"

text \<open>Point arrays \<open>a\<close> and \<open>x\<close> with \<open>a\<close> active, and the same after
  \<^verbatim>\<open>rename_array('a', 'TCoords')\<close>.\<close>

definition ex_ax :: "(nat, nat) DataSet" where
  "ex_ax =
     (init ((fresh_table [(''a'', 1), (''x'', 2)])\<lparr>ActiveScalars := Some ''a''\<rparr>)
           (fresh_table []) [])
       \<lparr>m_active_scalars_info := ActiveArrayInfo POINT (Some ''a'')\<rparr>"

definition ex_ax_tcoords :: "(nat, nat) DataSet" where
  "ex_ax_tcoords =
     (init ((fresh_table [(''x'', 2), (''TCoords'', 1)])\<lparr>ActiveScalars := Some ''TCoords''\<rparr>)
           (fresh_table []) [])
       \<lparr>m_last_active_scalars_name := Some ''x'',
        m_active_scalars_info := ActiveArrayInfo POINT (Some ''TCoords'')\<rparr>"

text \<open>Point arrays \<open>a\<close> and \<open>b\<close>, read once: \<open>a\<close> is the active scalars.\<close>

definition ex_ab :: "(nat, nat) DataSet" where
  "ex_ab =
     (init (fresh_table [(''a'', 1), (''b'', 2)]) (fresh_table []) [])
       \<lparr>PointData := (fresh_table [(''a'', 1), (''b'', 2)])\<lparr>ActiveScalars := Some ''a''\<rparr>,
        m_active_scalars_info := ActiveArrayInfo POINT (Some ''a'')\<rparr>"

text \<open>A point array \<open>a\<close> and a cell array \<open>c\<close>; then \<open>c\<close> made active with
  \<^verbatim>\<open>set_active_scalars('c')\<close>.\<close>

definition ex_pc :: "(nat, nat) DataSet" where
  "ex_pc = init (fresh_table [(''a'', 1)]) (fresh_table [(''c'', 2)]) []"

definition ex_cell_active :: "(nat, nat) DataSet" where
  "ex_cell_active =
     ex_pc\<lparr>PointData := (fresh_table [(''a'', 1)])\<lparr>ActiveScalars := Some ''a''\<rparr>,
           CellData := (fresh_table [(''c'', 2)])\<lparr>ActiveScalars := Some ''c''\<rparr>,
           m_last_active_scalars_name := Some ''a'',
           m_active_scalars_info := ActiveArrayInfo CELL (Some ''c'')\<rparr>"

text \<open>
  Point arrays \<open>a\<close> and \<open>Normals\<close>; and the dataset reached from it by
  \<^verbatim>\<open>set_active_scalars('a')\<close>, \<^verbatim>\<open>set_active_scalars('Normals')\<close> twice and
  \<^verbatim>\<open>rename_array('a', 'TCoords')\<close>: every name is reserved, \<open>Normals\<close> is recorded and is the
  last active name.
\<close>

definition ex_a_normals :: "(nat, nat) DataSet" where
  "ex_a_normals = init (fresh_table [(''a'', 1), (''Normals'', 2)]) (fresh_table []) []"

definition ex_reserved_backed :: "(nat, nat) DataSet" where
  "ex_reserved_backed =
     (init ((fresh_table [(''Normals'', 2), (''TCoords'', 1)])\<lparr>ActiveScalars := Some ''Normals''\<rparr>)
           (fresh_table []) [])
       \<lparr>m_last_active_scalars_name := Some ''Normals'',
        m_active_scalars_info := ActiveArrayInfo POINT (Some ''Normals'')\<rparr>"

text \<open>New datasets whose only array is reserved: a point \<open>TCoords\<close>, a cell \<open>Normals\<close>, a
  point \<open>Normals\<close>, a field \<open>Normals\<close>; and one with a cell and a field \<open>Normals\<close>.\<close>

definition ex_tcoords :: "(nat, nat) DataSet" where
  "ex_tcoords = init (fresh_table [(''TCoords'', 1)]) (fresh_table []) []"

definition ex_cell_normals :: "(nat, nat) DataSet" where
  "ex_cell_normals = init (fresh_table []) (fresh_table [(''Normals'', 1)]) []"

definition ex_point_normals :: "(nat, nat) DataSet" where
  "ex_point_normals = init (fresh_table [(''Normals'', 1)]) (fresh_table []) []"


definition ex_cell_field_normals :: "(nat, nat) DataSet" where
  "ex_cell_field_normals = init (fresh_table []) (fresh_table [(''Normals'', 1)]) [(''Normals'', 2)]"


section \<open>Properties\<close>

subsection \<open>The fallback scan and the property \<^verbatim>\<open>active_scalars_info\<close>\<close>

lemma first_arr_Some: "first_arr t = Some a \<longleftrightarrow> first_unreserved (keys (arrays t)) a"
  unfolding first_arr_def find_Some_iff first_unreserved_def by auto

lemma first_arr_None: "first_arr t = None \<longleftrightarrow> set (keys (arrays t)) \<subseteq> exclude"
  unfolding first_arr_def find_None_iff by auto

lemma first_arr_mem: "first_arr t = Some a \<Longrightarrow> a \<in> set (keys (arrays t)) \<and> a \<notin> exclude"
  unfolding first_arr_Some first_unreserved_def by auto

lemma map_of_keys: "map_of al k = None \<longleftrightarrow> k \<notin> set (keys al)"
  by (simp add: keys_def map_of_eq_None_iff)

lemma SetActive_held:
  "n \<in> set (keys (arrays t)) \<Longrightarrow>
     SetActive st r a t (Some n) = (st r a t n, asked st r a n t)"
  by (simp add: SetActive_def asked_def Let_def)

lemma SetActive_missing:
  "n \<notin> set (keys (arrays t)) \<Longrightarrow> SetActive st r a t (Some n) = (- 1, t)"
  by (simp add: SetActive_def)

lemma arrays_set_pointer [simp]: "arrays (set_pointer r p t) = arrays t"
  by (cases r) simp_all

lemma arrays_asked [simp]: "arrays (asked st r a n t) = arrays t"
  by (simp add: asked_def)

lemma first_arr_asked [simp]: "first_arr (asked st r a n t) = first_arr t"
  by (simp add: first_arr_def)

lemma info_fresh:
  "active_scalars_info st d =
     (m_active_scalars_info (snd (active_scalars_info st d)), snd (active_scalars_info st d))"
  by (simp add: active_scalars_info_def Let_def)

lemma info_not_stale: "\<not> stale d \<Longrightarrow> active_scalars_info st d = (m_active_scalars_info d, d)"
  by (auto simp: active_scalars_info_def stale_def Let_def split: option.splits)

lemma info_stale:
  "stale d \<Longrightarrow> active_scalars_info st d =
     (case first_arr (PointData d) of
        Some a \<Rightarrow> (ActiveArrayInfo POINT (Some a),
                   d\<lparr>m_active_scalars_info := ActiveArrayInfo POINT (Some a),
                     PointData := asked st Scalars POINT a (PointData d)\<rparr>)
      | None \<Rightarrow>
     (case first_arr (CellData d) of
        Some a \<Rightarrow> (ActiveArrayInfo CELL (Some a),
                   d\<lparr>m_active_scalars_info := ActiveArrayInfo CELL (Some a),
                     CellData := asked st Scalars CELL a (CellData d)\<rparr>)
      | None \<Rightarrow> (ActiveArrayInfo (association (m_active_scalars_info d)) None,
                  d\<lparr>m_active_scalars_info :=
                       ActiveArrayInfo (association (m_active_scalars_info d)) None\<rparr>)))"
proof -
  assume s: "stale d"
  then have t: "(case substituted_name d of None \<Rightarrow> True
                 | Some n \<Rightarrow> n \<notin> set (point_keys d @ cell_keys d))"
    by (simp add: stale_def split: option.splits)
  show ?thesis
  proof (cases "first_arr (PointData d)")
    case (Some a)
    then have "a \<in> set (point_keys d)" by (simp add: first_arr_mem)
    then show ?thesis using t Some
      by (simp add: active_scalars_info_def Let_def SetActive_held)
  next
    case None
    note pn = None
    show ?thesis
    proof (cases "first_arr (CellData d)")
      case (Some a)
      then have "a \<in> set (cell_keys d)" by (simp add: first_arr_mem)
      then show ?thesis using t Some pn
        by (simp add: active_scalars_info_def Let_def SetActive_held)
    next
      case None
      then show ?thesis using t pn
        by (simp add: active_scalars_info_def Let_def)
    qed
  qed
qed

lemma info_frame:
  "arrays (PointData (snd (active_scalars_info st d))) = arrays (PointData d)"
  "arrays (CellData (snd (active_scalars_info st d))) = arrays (CellData d)"
  "FieldData (snd (active_scalars_info st d)) = FieldData d"
  "m_last_active_scalars_name (snd (active_scalars_info st d)) = m_last_active_scalars_name d"
  "m_active_vectors_info (snd (active_scalars_info st d)) = m_active_vectors_info d"
  "m_active_tensors_info (snd (active_scalars_info st d)) = m_active_tensors_info d"
  "m_textures (snd (active_scalars_info st d)) = m_textures d"
  by (cases "stale d"; simp add: info_stale info_not_stale split: option.splits)+

text \<open>The info returned does not depend on the native status.\<close>

lemma info_any_status: "fst (active_scalars_info st d) = fst (active_scalars_info st' d)"
  by (cases "stale d"; simp add: info_stale info_not_stale split: option.splits)

lemma info_idem:
  "active_scalars_info st (snd (active_scalars_info st d)) = active_scalars_info st d"
proof (cases "stale d")
  case False
  then show ?thesis by (simp add: info_not_stale)
next
  case True
  show ?thesis
  proof (cases "first_arr (PointData d)")
    case (Some a)
    let ?d' = "d\<lparr>m_active_scalars_info := ActiveArrayInfo POINT (Some a),
                     PointData := asked st Scalars POINT a (PointData d)\<rparr>"
    from first_arr_mem[OF Some] have "\<not> stale ?d'"
      by (simp add: stale_def substituted_name_def)
    then show ?thesis using True Some by (simp add: info_stale info_not_stale)
  next
    case None
    note pn = None
    show ?thesis
    proof (cases "first_arr (CellData d)")
      case (Some a)
      let ?d' = "d\<lparr>m_active_scalars_info := ActiveArrayInfo CELL (Some a),
                     CellData := asked st Scalars CELL a (CellData d)\<rparr>"
      from first_arr_mem[OF Some] have "\<not> stale ?d'"
        by (simp add: stale_def substituted_name_def)
      then show ?thesis using True Some pn by (simp add: info_stale info_not_stale)
    next
      case None
      let ?d' = "d\<lparr>m_active_scalars_info :=
                       ActiveArrayInfo (association (m_active_scalars_info d)) None\<rparr>"
      have "stale ?d'" by (simp add: stale_def substituted_name_def)
      then show ?thesis using True None pn by (simp add: info_stale first_arr_def)
    qed
  qed
qed

subsection \<open>Lookup and the setters\<close>

lemma array_names_snd: "snd (array_names st d) = snd (active_scalars_info st d)"
  by (simp add: array_names_def Let_def split_beta info_idem)

lemma set_move_front: "x \<in> set xs \<Longrightarrow> set (x # remove1 x xs) = set xs"
proof -
  assume x: "x \<in> set xs"
  have "\<And>y. y \<in> set (x # remove1 x xs) \<longleftrightarrow> y \<in> set xs"
    using x by (case_tac "y = x") simp_all
  then show ?thesis by blast
qed

lemma array_names_mem:
  "Some n \<in> set (fst (array_names st d)) \<longleftrightarrow>
     n \<in> set (field_keys d) \<or> n \<in> set (point_keys d) \<or> n \<in> set (cell_keys d)"
proof -
  let ?names = "map Some (field_keys d @ point_keys d @ cell_keys d)"
  let ?n = "name (fst (active_scalars_info st d))"
  have "set (fst (array_names st d)) = set ?names"
  proof (cases "?n \<in> set ?names")
    case True
    then have "fst (array_names st d) = ?n # remove1 ?n ?names"
      by (simp add: array_names_def Let_def split_beta info_idem)
    then show ?thesis using set_move_front[OF True] by simp
  next
    case False
    then show ?thesis by (simp add: array_names_def Let_def split_beta)
  qed
  then show ?thesis by auto
qed

lemma attributes_same [simp]: "a \<noteq> NONE \<Longrightarrow> attributes_update a (attributes a d) d = d"
  by (cases a) simp_all

lemma info_frame_attributes:
  "arrays (attributes a (snd (active_scalars_info st d))) = arrays (attributes a d)"
  by (cases a) (simp_all add: info_frame)

lemma get_array_info: "get_array (snd (active_scalars_info st d)) n p = get_array d n p"
  by (simp add: get_array_def info_frame)

lemma get_array_fst:
  "get_array d n p = (x, Some field) \<Longrightarrow> x = map_of (arrays (attributes field d)) n"
  by (cases p) (auto simp: get_array_def Let_def split: if_splits)

lemma get_array_found:
  "get_array d n p = (Some arr, Some field) \<Longrightarrow>
     map_of (arrays (attributes field d)) n = Some arr"
  using get_array_fst[of d n p "Some arr" field] by simp

lemma get_array_preferred:
  "map_of (arrays (attributes p d)) n = Some arr \<Longrightarrow> get_array d n p = (Some arr, Some p)"
  by (cases p) (auto simp: get_array_def Let_def)

lemma get_array_nowhere:
  "n \<notin> set (point_keys d) \<Longrightarrow> n \<notin> set (cell_keys d) \<Longrightarrow> n \<notin> set (field_keys d) \<Longrightarrow>
     get_array d n p = (None, None)"
  using map_of_keys[of "arrays (PointData d)" n] map_of_keys[of "arrays (CellData d)" n]
    map_of_keys[of "FieldData d" n]
  by (simp add: get_array_def)

lemma get_array_point:
  "n \<in> set (point_keys d) \<Longrightarrow>
     get_array d n POINT = (map_of (arrays (PointData d)) n, Some POINT)"
  using map_of_keys[of "arrays (PointData d)" n]
  by (auto simp: get_array_def Let_def)

lemma get_array_cell_only:
  "n \<notin> set (point_keys d) \<Longrightarrow> n \<in> set (cell_keys d) \<Longrightarrow> n \<notin> set (field_keys d) \<Longrightarrow>
     get_array d n POINT = (map_of (arrays (CellData d)) n, Some CELL)"
  using map_of_keys[of "arrays (PointData d)" n] map_of_keys[of "arrays (CellData d)" n]
    map_of_keys[of "FieldData d" n]
  by (auto simp: get_array_def Let_def)

lemma get_array_cell_field:
  "n \<notin> set (point_keys d) \<Longrightarrow> n \<in> set (cell_keys d) \<Longrightarrow> n \<in> set (field_keys d) \<Longrightarrow>
     get_array d n POINT = (None, Some POINT)"
  using map_of_keys[of "arrays (PointData d)" n] map_of_keys[of "arrays (CellData d)" n]
    map_of_keys[of "FieldData d" n]
  by (auto simp: get_array_def Let_def)

lemma get_array_field_only:
  "n \<notin> set (point_keys d) \<Longrightarrow> n \<notin> set (cell_keys d) \<Longrightarrow> n \<in> set (field_keys d) \<Longrightarrow>
     get_array d n POINT = (map_of (FieldData d) n, Some NONE)"
  using map_of_keys[of "arrays (PointData d)" n] map_of_keys[of "arrays (CellData d)" n]
    map_of_keys[of "FieldData d" n]
  by (auto simp: get_array_def Let_def)

lemma set_active_vectors_at:
  assumes "snd (get_array d n p) = Some field" "field \<noteq> NONE"
  shows "set_active_vectors st d (Some n) p =
     (if n \<notin> set (keys (arrays (attributes field d)))
         \<or> st Vectors field (attributes field d) n < 0
      then Inl (ActivationError, d)
      else Inr (with_active_vectors field n d))"
  using assms
  by (cases field; cases "n \<in> set (keys (arrays (attributes field d)))")
     (simp_all add: set_active_vectors_def split_beta Let_def SetActive_held SetActive_missing
        asked_def with_active_vectors_def)

lemma set_active_vectors_unusable:
  assumes "snd (get_array d n p) = None \<or> snd (get_array d n p) = Some NONE"
  shows "set_active_vectors st d (Some n) p = Inl (InvalidField, d)"
  using assms by (auto simp: set_active_vectors_def split_beta)

lemma attributes_last [simp]:
  "attributes a (d\<lparr>m_last_active_scalars_name := l\<rparr>) = attributes a d"
  by (cases a) simp_all

lemma set_active_scalars_at:
  assumes "snd (get_array d n p) = Some field" "field \<noteq> NONE"
  shows "set_active_scalars st d (Some n) p =
     (let d2 = (snd (active_scalars_info st d))
                 \<lparr>m_last_active_scalars_name := name (fst (active_scalars_info st d))\<rparr>
      in if n \<notin> set (keys (arrays (attributes field d)))
            \<or> st Scalars field (attributes field d2) n < 0
         then Inl (ActivationError, d2)
         else Inr ((attributes_update field ((attributes field d2)\<lparr>ActiveScalars := Some n\<rparr>) d2)
                     \<lparr>m_active_scalars_info := ActiveArrayInfo field (Some n)\<rparr>))"
proof -
  let ?d2 = "(snd (active_scalars_info st d))
                 \<lparr>m_last_active_scalars_name := name (fst (active_scalars_info st d))\<rparr>"
  have k: "keys (arrays (attributes field ?d2)) = keys (arrays (attributes field d))"
    by (simp add: info_frame_attributes)
  show ?thesis
  proof (cases "n \<in> set (keys (arrays (attributes field d)))")
    case True
    then have "n \<in> set (keys (arrays (attributes field ?d2)))" by (simp add: info_frame_attributes)
    then have "SetActive st Scalars field (attributes field ?d2) (Some n)
                 = (st Scalars field (attributes field ?d2) n,
                    asked st Scalars field n (attributes field ?d2))"
      by (rule SetActive_held)
    then show ?thesis using assms True
      by (cases field) (simp_all add: set_active_scalars_def split_beta Let_def asked_def)
  next
    case False
    then have "n \<notin> set (keys (arrays (attributes field ?d2)))" by (simp add: info_frame_attributes)
    then have "SetActive st Scalars field (attributes field ?d2) (Some n)
                 = (- 1, attributes field ?d2)"
      by (rule SetActive_missing)
    then show ?thesis using assms False
      by (cases field) (simp_all add: set_active_scalars_def split_beta Let_def)
  qed
qed

lemma set_active_scalars_unusable:
  assumes "snd (get_array d n p) = None \<or> snd (get_array d n p) = Some NONE"
  shows "set_active_scalars st d (Some n) p =
           Inl (InvalidField, (snd (active_scalars_info st d))
                 \<lparr>m_last_active_scalars_name := name (fst (active_scalars_info st d))\<rparr>)"
  using assms by (auto simp: set_active_scalars_def split_beta Let_def)

subsection \<open>The vectors property, clearing and reserved names\<close>

lemma active_vectors_info_recorded:
  "name (m_active_vectors_info d) \<noteq> None \<Longrightarrow>
     active_vectors_info st d = Inr (m_active_vectors_info d, d)"
  by (cases "name (m_active_vectors_info d)") (simp_all add: active_vectors_info_def)

lemma active_vectors_info_no_normals:
  assumes "name (m_active_vectors_info d) = None"
    "''Normals'' \<notin> set (point_keys d) \<union> set (cell_keys d) \<union> set (field_keys d)"
  shows "active_vectors_info st d = Inr (m_active_vectors_info d, snd (active_scalars_info st d))"
proof -
  have "Some ''Normals'' \<notin> set (fst (array_names st d))"
    using assms(2) by (simp add: array_names_mem)
  then show ?thesis using assms(1)
    by (simp add: active_vectors_info_def Let_def split_beta array_names_snd info_frame)
qed

lemma active_vectors_info_normals:
  assumes "name (m_active_vectors_info d) = None"
    "''Normals'' \<in> set (point_keys d) \<union> set (cell_keys d) \<union> set (field_keys d)"
  shows "active_vectors_info st d =
     (case set_active_vectors st (snd (active_scalars_info st d)) (Some ''Normals'') POINT of
        Inl e \<Rightarrow> Inl e
      | Inr d2 \<Rightarrow> Inr (m_active_vectors_info d2, d2))"
proof -
  have "Some ''Normals'' \<in> set (fst (array_names st d))"
    using assms(2) by (auto simp: array_names_mem)
  then show ?thesis using assms(1)
    by (simp add: active_vectors_info_def Let_def split_beta array_names_snd)
qed

lemma keys_info [simp]:
  "point_keys (snd (active_scalars_info st d)) = point_keys d"
  "cell_keys (snd (active_scalars_info st d)) = cell_keys d"
  "field_keys (snd (active_scalars_info st d)) = field_keys d"
  by (simp_all add: info_frame)

lemma info_with_active_vectors [simp]:
  "m_active_vectors_info (with_active_vectors field n d) = ActiveArrayInfo field (Some n)"
  by (simp add: with_active_vectors_def)

lemma active_vectors_info_point:
  assumes "name (m_active_vectors_info d) = None" and "''Normals'' \<in> set (point_keys d)"
  shows "active_vectors_info st d =
     (let d1 = snd (active_scalars_info st d)
      in if st Vectors POINT (PointData d1) ''Normals'' < 0
         then Inl (ActivationError, d1)
         else Inr (ActiveArrayInfo POINT (Some ''Normals''),
                   with_active_vectors POINT ''Normals'' d1))"
proof -
  let ?d1 = "snd (active_scalars_info st d)"
  have "snd (get_array ?d1 ''Normals'' POINT) = Some POINT"
    using assms(2) by (simp add: get_array_info get_array_point)
  from set_active_vectors_at[OF this, of st] assms(2)
  have "set_active_vectors st ?d1 (Some ''Normals'') POINT =
     (if st Vectors POINT (PointData ?d1) ''Normals'' < 0 then Inl (ActivationError, ?d1)
      else Inr (with_active_vectors POINT ''Normals'' ?d1))"
    by simp
  then show ?thesis
    using assms by (simp add: active_vectors_info_normals Let_def)
qed

lemma active_vectors_info_cell_only:
  assumes "name (m_active_vectors_info d) = None" and "''Normals'' \<notin> set (point_keys d)"
    and "''Normals'' \<in> set (cell_keys d)" and "''Normals'' \<notin> set (field_keys d)"
  shows "active_vectors_info st d =
     (let d1 = snd (active_scalars_info st d)
      in if st Vectors CELL (CellData d1) ''Normals'' < 0
         then Inl (ActivationError, d1)
         else Inr (ActiveArrayInfo CELL (Some ''Normals''),
                   with_active_vectors CELL ''Normals'' d1))"
proof -
  let ?d1 = "snd (active_scalars_info st d)"
  have "snd (get_array ?d1 ''Normals'' POINT) = Some CELL"
    using assms(2-4) by (simp add: get_array_info get_array_cell_only)
  from set_active_vectors_at[OF this, of st] assms(3)
  have "set_active_vectors st ?d1 (Some ''Normals'') POINT =
     (if st Vectors CELL (CellData ?d1) ''Normals'' < 0 then Inl (ActivationError, ?d1)
      else Inr (with_active_vectors CELL ''Normals'' ?d1))"
    by simp
  then show ?thesis
    using assms by (simp add: active_vectors_info_normals Let_def)
qed

lemma active_vectors_info_cell_field:
  assumes "name (m_active_vectors_info d) = None" and "''Normals'' \<notin> set (point_keys d)"
    and "''Normals'' \<in> set (cell_keys d)" and "''Normals'' \<in> set (field_keys d)"
  shows "active_vectors_info st d = Inl (ActivationError, snd (active_scalars_info st d))"
proof -
  let ?d1 = "snd (active_scalars_info st d)"
  have "snd (get_array ?d1 ''Normals'' POINT) = Some POINT"
    using assms(2-4) by (simp add: get_array_info get_array_cell_field)
  from set_active_vectors_at[OF this, of st] assms(2)
  have "set_active_vectors st ?d1 (Some ''Normals'') POINT = Inl (ActivationError, ?d1)"
    by simp
  then show ?thesis
    using assms by (simp add: active_vectors_info_normals)
qed

lemma active_vectors_info_field_only:
  assumes "name (m_active_vectors_info d) = None" and "''Normals'' \<notin> set (point_keys d)"
    and "''Normals'' \<notin> set (cell_keys d)" and "''Normals'' \<in> set (field_keys d)"
  shows "active_vectors_info st d = Inl (InvalidField, snd (active_scalars_info st d))"
proof -
  let ?d1 = "snd (active_scalars_info st d)"
  have "snd (get_array ?d1 ''Normals'' POINT) = Some NONE"
    using assms(2-4) by (simp add: get_array_info get_array_field_only)
  then have "set_active_vectors st ?d1 (Some ''Normals'') POINT = Inl (InvalidField, ?d1)"
    by (simp add: set_active_vectors_unusable)
  then show ?thesis
    using assms by (simp add: active_vectors_info_normals)
qed

lemma set_active_scalars_None:
  "set_active_scalars st d None p = Inr (clear_scalars_pointers d)"
  by (simp add: set_active_scalars_def SetActive_def clear_scalars_pointers_def)

lemma set_active_vectors_None:
  "set_active_vectors st d None p = Inr (clear_vectors d)"
  by (simp add: set_active_vectors_def SetActive_def clear_vectors_def)

lemma substituted_name_cleared [simp]:
  "substituted_name (clear_scalars_pointers d) = substituted_name d"
  by (simp add: substituted_name_def clear_scalars_pointers_def split: option.splits)

lemma keys_cleared [simp]:
  "point_keys (clear_scalars_pointers d) = point_keys d"
  "cell_keys (clear_scalars_pointers d) = cell_keys d"
  by (simp_all add: clear_scalars_pointers_def)

lemma stale_cleared [simp]: "stale (clear_scalars_pointers d) = stale d"
  by (simp add: stale_def cong: option.case_cong)

lemma first_arr_cleared [simp]:
  "first_arr (PointData (clear_scalars_pointers d)) = first_arr (PointData d)"
  "first_arr (CellData (clear_scalars_pointers d)) = first_arr (CellData d)"
  by (simp_all add: first_arr_def clear_scalars_pointers_def)

lemma info_cleared [simp]:
  "m_active_scalars_info (clear_scalars_pointers d) = m_active_scalars_info d"
  by (simp add: clear_scalars_pointers_def)

lemma not_stale_name: "\<not> stale d \<Longrightarrow> name (m_active_scalars_info d) \<noteq> None"
  by (auto simp: stale_def substituted_name_def split: option.splits)

lemma info_name_None:
  "name (fst (active_scalars_info st d)) = None \<longleftrightarrow>
     stale d \<and> set (point_keys d) \<subseteq> exclude \<and> set (cell_keys d) \<subseteq> exclude"
proof (cases "stale d")
  case False
  then show ?thesis using not_stale_name[OF False] by (simp add: info_not_stale)
next
  case True
  show ?thesis
  proof (cases "first_arr (PointData d)")
    case (Some a)
    then have "\<not> set (point_keys d) \<subseteq> exclude"
      using first_arr_None[of "PointData d"] by simp
    then show ?thesis using True Some by (simp add: info_stale)
  next
    case None
    note pn = None
    show ?thesis
    proof (cases "first_arr (CellData d)")
      case (Some a)
      then have "\<not> set (cell_keys d) \<subseteq> exclude"
        using first_arr_None[of "CellData d"] by simp
      then show ?thesis using True Some pn by (simp add: info_stale)
    next
      case None
      then show ?thesis using True pn first_arr_None[of "PointData d"]
          first_arr_None[of "CellData d"]
        by (simp add: info_stale)
    qed
  qed
qed

lemma info_assoc_None:
  "name (fst (active_scalars_info st d)) = None \<Longrightarrow>
     association (fst (active_scalars_info st d)) = association (m_active_scalars_info d)"
proof -
  assume n: "name (fst (active_scalars_info st d)) = None"
  then have s: "stale d" and p: "first_arr (PointData d) = None" and c: "first_arr (CellData d) = None"
    by (simp_all add: info_name_None first_arr_None)
  show ?thesis by (simp add: info_stale[OF s] p c)
qed

lemma reserved_name_recorded:
  assumes "name (fst (active_scalars_info st d)) = Some a" "a \<in> exclude"
  shows "active_scalars_info st d = (m_active_scalars_info d, d)"
proof (cases "stale d")
  case False
  then show ?thesis by (simp add: info_not_stale)
next
  case True
  then show ?thesis using assms
    by (cases "first_arr (PointData d)"; cases "first_arr (CellData d)")
       (auto simp: info_stale dest: first_arr_mem)
qed

subsection \<open>Renaming and copying\<close>

lemma pop_found:
  "map_of al k = Some v \<Longrightarrow> pop k al = Some (v, AList.delete k al)"
  by (simp add: pop_def)

lemma pop_Some: "pop k al = Some (v, rest) \<Longrightarrow> map_of al k = Some v \<and> rest = AList.delete k al"
  by (auto simp: pop_def split: option.splits)

lemma map_of_setitem: "map_of (setitem k v al) = (map_of al)(k \<mapsto> v)"
  by (simp add: setitem_def update_conv')

lemma map_of_renamed:
  "map_of (setitem new v (AList.delete old al)) = ((map_of al)(old := None))(new \<mapsto> v)"
  by (simp add: map_of_setitem delete_conv')

lemma attributes_arrays_update:
  "arrays (attributes a (attributes_update b t d)) = (if a = b then arrays t else arrays (attributes a d))"
  by (cases a; cases b) simp_all

lemma rename_array_unfold:
  assumes "get_array d old p = (Some arr, Some field)"
  shows "rename_array st d old new p =
     (let d1 = snd (active_scalars_info st d);
          d2 = attributes_update field
                 ((attributes field d1)\<lparr>arrays := setitem new arr (AList.delete old (arrays (attributes field d)))\<rparr>) d1
      in if name (fst (active_scalars_info st d)) = Some old
         then set_active_scalars st d2 (Some new) field else Inr d2)"
proof -
  have "pop old (arrays (attributes field (snd (active_scalars_info st d))))
          = Some (arr, AList.delete old (arrays (attributes field d)))"
    using get_array_found[OF assms] by (simp add: info_frame_attributes pop_found)
  then show ?thesis using assms
    by (simp add: rename_array_def Let_def split_beta)
qed

lemma rename_array_Inr:
  assumes "rename_array st d old new p = Inr d'"
  shows "\<exists>arr field. get_array d old p = (Some arr, Some field)"
proof -
  obtain x f where g: "get_array d old p = (x, f)" by (cases "get_array d old p")
  from assms g obtain field where f: "f = Some field"
    by (cases f) (simp_all add: rename_array_def Let_def split_beta)
  from assms g f obtain arr rest
    where "pop old (arrays (attributes field (snd (active_scalars_info st d)))) = Some (arr, rest)"
    by (cases "pop old (arrays (attributes field (snd (active_scalars_info st d))))")
       (auto simp: rename_array_def Let_def split_beta)
  then have "map_of (arrays (attributes field d)) old = Some arr"
    using pop_Some by (fastforce simp: info_frame_attributes)
  moreover have "x = map_of (arrays (attributes field d)) old"
    using g f get_array_fst by blast
  ultimately show ?thesis using g f by simp
qed

lemma arrays_after_activation:
  assumes "snd (get_array d n p) = Some field" "set_active_scalars st d (Some n) p = Inr d'"
  shows "field \<noteq> NONE \<and> m_active_scalars_info d' = ActiveArrayInfo field (Some n)
         \<and> m_last_active_scalars_name d' = name (fst (active_scalars_info st d))
         \<and> (\<forall>a. arrays (attributes a d') = arrays (attributes a d))"
proof -
  have f: "field \<noteq> NONE"
    using assms by (auto simp: set_active_scalars_unusable)
  let ?d2 = "(snd (active_scalars_info st d))\<lparr>m_last_active_scalars_name := name (fst (active_scalars_info st d))\<rparr>"
  have d': "d' = (attributes_update field ((attributes field ?d2)\<lparr>ActiveScalars := Some n\<rparr>) ?d2)
                     \<lparr>m_active_scalars_info := ActiveArrayInfo field (Some n)\<rparr>"
    using assms(2) unfolding set_active_scalars_at[OF assms(1) f] Let_def
    by (simp split: if_splits)
  have "\<And>a. arrays (attributes a d') = arrays (attributes a d)"
  proof -
    fix a
    show "arrays (attributes a d') = arrays (attributes a d)"
      unfolding d' using f
      by (cases a; cases field) (simp_all add: info_frame)
  qed
  moreover have "m_last_active_scalars_name d' = name (fst (active_scalars_info st d))"
    unfolding d' using f by (cases field) simp_all
  ultimately show ?thesis using f d' by simp
qed

text \<open>The name a read returns is in a table, unless it is a recorded reserved name.\<close>

lemma info_name_held:
  assumes "name (fst (active_scalars_info st d)) = Some l"
    and "name (m_active_scalars_info d) = Some l \<longrightarrow> l \<notin> exclude"
  shows "l \<in> set (point_keys d) \<union> set (cell_keys d)"
proof (cases "stale d")
  case False
  then have "name (m_active_scalars_info d) = Some l"
    using assms(1) by (simp add: info_not_stale)
  with assms(2) have "substituted_name d = Some l" by (simp add: substituted_name_def)
  with False show ?thesis by (simp add: stale_def)
next
  case True
  then show ?thesis using assms(1)
    by (cases "first_arr (PointData d)"; cases "first_arr (CellData d)")
       (auto simp: info_stale dest: first_arr_mem)
qed

text \<open>A read that resolves anew never returns a reserved name.\<close>

lemma info_stale_unreserved:
  "stale d \<Longrightarrow> name (fst (active_scalars_info st d)) = Some l \<Longrightarrow> l \<notin> exclude"
  by (cases "first_arr (PointData d)"; cases "first_arr (CellData d)")
     (auto simp: info_stale dest: first_arr_mem)

text \<open>
  A rename of an array found in the point or the cell table returns normally whenever that
  table accepts the new name as active scalars.
\<close>

lemma rename_array_returns:
  assumes g: "get_array d old_name p = (Some arr, Some field)" and f: "field \<noteq> NONE"
    and ok: "\<And>t. 0 \<le> st Scalars field t new_name"
  shows "\<exists>d'. rename_array st d old_name new_name p = Inr d'"
proof -
  let ?d1 = "snd (active_scalars_info st d)"
  let ?tab = "setitem new_name arr (AList.delete old_name (arrays (attributes field d)))"
  let ?d2 = "attributes_update field ((attributes field ?d1)\<lparr>arrays := ?tab\<rparr>) ?d1"
  have tab2: "arrays (attributes field ?d2) = ?tab"
    by (simp add: attributes_arrays_update)
  then have "get_array ?d2 new_name field = (Some arr, Some field)"
    by (intro get_array_preferred) (simp add: map_of_setitem)
  then have g2: "snd (get_array ?d2 new_name field) = Some field" by simp
  have "map_of ?tab new_name = Some arr" by (simp add: map_of_setitem)
  then have "new_name \<in> set (keys (arrays (attributes field ?d2)))"
    using map_of_keys[of ?tab new_name] by (simp add: tab2)
  then have "\<exists>d'. set_active_scalars st ?d2 (Some new_name) field = Inr d'"
    using ok by (simp add: set_active_scalars_at[OF g2 f] Let_def not_less[symmetric])
  then show ?thesis
    unfolding rename_array_unfold[OF g] Let_def by simp
qed

lemma SetActive_rejected:
  "SetActive st r a t (Some n) = (ret, t') \<Longrightarrow> ret < 0 \<Longrightarrow> t' = t"
  by (auto simp: SetActive_def Let_def split: if_splits)

lemma set_active_vectors_Inl:
  "set_active_vectors st d (Some n) p = Inl (e, d') \<Longrightarrow> d' = d"
  by (auto simp: set_active_vectors_def Let_def split_beta
           split: option.splits FieldAssociation.splits if_splits
           dest!: SetActive_rejected[OF surjective_pairing])


lemma active_vectors_info_Inl:
  assumes "active_vectors_info st d = Inl (e, d')"
  shows "d' = snd (active_scalars_info st d)"
proof (cases "name (m_active_vectors_info d) = None")
  case False
  then show ?thesis using assms active_vectors_info_recorded[OF False, of st] by simp
next
  case True
  show ?thesis
  proof (cases "Some ''Normals'' \<in> set (fst (array_names st d))")
    case False
    then show ?thesis using assms True
      by (simp add: active_vectors_info_def Let_def split_beta)
  next
    case mem: True
    then have "set_active_vectors st (snd (active_scalars_info st d)) (Some ''Normals'') POINT
                 = Inl (e, d')"
      using assms True
      by (simp add: active_vectors_info_def Let_def split_beta array_names_snd
               split: sum.splits)
    then show ?thesis by (rule set_active_vectors_Inl)
  qed
qed


lemma info_put_back [simp]:
  "(snd (active_scalars_info st d))\<lparr>m_active_scalars_info := fst (active_scalars_info st d)\<rparr>
     = snd (active_scalars_info st d)"
proof -
  have "fst (active_scalars_info st d) = m_active_scalars_info (snd (active_scalars_info st d))"
    using info_fresh[of st d] by (metis fst_conv)
  then show ?thesis by simp
qed


subsection \<open>The example datasets\<close>

lemmas table_defs = init_def fresh_table_def keys_def exclude_def accept_all_def reject_b_def

lemmas op_defs = active_scalars_info_def substituted_name_def first_arr_def get_array_def
  SetActive_def set_active_scalars_def set_active_vectors_def set_active_tensors_def
  array_names_def active_vectors_info_def rename_array_def pop_def setitem_def
  clear_textures_def stale_def clear_scalars_pointers_def clear_vectors_def
  with_active_vectors_def

lemma ex_a_read:
  "active_scalars_info accept_all ex_a = (ActiveArrayInfo POINT (Some ''a''), ex_a_active)"
  by (simp add: ex_a_def ex_a_active_def table_defs op_defs)

lemma ex_ab_read:
  "active_scalars_info accept_all (init (fresh_table [(''a'', 1), (''b'', 2)]) (fresh_table []) [])
     = (ActiveArrayInfo POINT (Some ''a''), ex_ab)"
  by (simp add: ex_ab_def table_defs op_defs)

lemma ex_cell_active_reached:
  "set_active_scalars accept_all ex_pc (Some ''c'') CELL = Inr ex_cell_active"
  by (simp add: ex_pc_def ex_cell_active_def table_defs op_defs)

lemma ex_reserved_backed_reached:
  "\<exists>s1 s2 s3.
     set_active_scalars accept_all ex_a_normals (Some ''a'') CELL = Inr s1
     \<and> set_active_scalars accept_all s1 (Some ''Normals'') CELL = Inr s2
     \<and> set_active_scalars accept_all s2 (Some ''Normals'') CELL = Inr s3
     \<and> rename_array accept_all s3 ''a'' ''TCoords'' CELL = Inr ex_reserved_backed"
  by (simp add: ex_a_normals_def ex_reserved_backed_def table_defs op_defs)




section \<open>Behaviour of the operations\<close>

subsection \<open>The fallback of \<^verbatim>\<open>active_scalars_info\<close>\<close>

text \<open>
  C1 (as amended).  When \<^verbatim>\<open>active_scalars_info\<close> finds the recorded name (after the
  substitution) absent or in neither the point nor the cell table, it takes the first point
  array whose name is not reserved; if every point name is reserved, the first such cell
  array.  The chosen array is recorded in \<^verbatim>\<open>_active_scalars_info\<close>, and the table of its
  association is asked to make it the active scalars: the pointer of that table moves to it
  unless the table answers a negative status, which the property does not look at.  Nothing
  else changes.  If neither table has such an array, the info returned has no name and
  keeps the association recorded before.
\<close>

theorem active_scalars_info_fallback:
  assumes "stale d"
  shows "(\<forall>a. first_unreserved (point_keys d) a \<longrightarrow>
            active_scalars_info st d =
              (ActiveArrayInfo POINT (Some a),
               d\<lparr>m_active_scalars_info := ActiveArrayInfo POINT (Some a),
                 PointData := (if st Scalars POINT (PointData d) a < 0 then PointData d
                               else (PointData d)\<lparr>ActiveScalars := Some a\<rparr>)\<rparr>))
       \<and> (\<forall>a. set (point_keys d) \<subseteq> exclude \<and> first_unreserved (cell_keys d) a \<longrightarrow>
            active_scalars_info st d =
              (ActiveArrayInfo CELL (Some a),
               d\<lparr>m_active_scalars_info := ActiveArrayInfo CELL (Some a),
                 CellData := (if st Scalars CELL (CellData d) a < 0 then CellData d
                              else (CellData d)\<lparr>ActiveScalars := Some a\<rparr>)\<rparr>))
       \<and> (set (point_keys d) \<subseteq> exclude \<and> set (cell_keys d) \<subseteq> exclude \<longrightarrow>
            active_scalars_info st d =
              (ActiveArrayInfo (association (m_active_scalars_info d)) None,
               d\<lparr>m_active_scalars_info :=
                    ActiveArrayInfo (association (m_active_scalars_info d)) None\<rparr>))"
proof (intro conjI allI impI)
  fix a
  assume "first_unreserved (point_keys d) a"
  then have "first_arr (PointData d) = Some a"
    by (simp add: first_arr_Some)
  then show "active_scalars_info st d =
              (ActiveArrayInfo POINT (Some a),
               d\<lparr>m_active_scalars_info := ActiveArrayInfo POINT (Some a),
                 PointData := (if st Scalars POINT (PointData d) a < 0 then PointData d
                               else (PointData d)\<lparr>ActiveScalars := Some a\<rparr>)\<rparr>)"
    by (simp add: info_stale[OF assms] asked_def)
next
  fix a
  assume "set (point_keys d) \<subseteq> exclude \<and> first_unreserved (cell_keys d) a"
  then have "first_arr (PointData d) = None" "first_arr (CellData d) = Some a"
    by (simp_all add: first_arr_Some first_arr_None)
  then show "active_scalars_info st d =
              (ActiveArrayInfo CELL (Some a),
               d\<lparr>m_active_scalars_info := ActiveArrayInfo CELL (Some a),
                 CellData := (if st Scalars CELL (CellData d) a < 0 then CellData d
                              else (CellData d)\<lparr>ActiveScalars := Some a\<rparr>)\<rparr>)"
    by (simp add: info_stale[OF assms] asked_def)
next
  assume "set (point_keys d) \<subseteq> exclude \<and> set (cell_keys d) \<subseteq> exclude"
  then have "first_arr (PointData d) = None" "first_arr (CellData d) = None"
    by (simp_all add: first_arr_None)
  then show "active_scalars_info st d =
              (ActiveArrayInfo (association (m_active_scalars_info d)) None,
               d\<lparr>m_active_scalars_info :=
                    ActiveArrayInfo (association (m_active_scalars_info d)) None\<rparr>)"
    by (simp add: info_stale[OF assms])
qed

text \<open>
  The claim as stated fails where the table rejects the chosen array: on a new dataset
  with the point array \<open>b\<close> and a table that rejects \<open>b\<close>, the info names \<open>b\<close> and the
  pointer of the point table stays empty.
\<close>

theorem active_scalars_info_fallback_counterexample:
  "stale ex_b \<and> first_unreserved (point_keys ex_b) ''b''
   \<and> active_scalars_info reject_b ex_b =
       (ActiveArrayInfo POINT (Some ''b''),
        ex_b\<lparr>m_active_scalars_info := ActiveArrayInfo POINT (Some ''b'')\<rparr>)
   \<and> ActiveScalars (PointData (ex_b\<lparr>m_active_scalars_info := ActiveArrayInfo POINT (Some ''b'')\<rparr>))
       = None"
proof -
  have "first_unreserved (point_keys ex_b) ''b''"
    unfolding first_unreserved_def
    by (rule exI[of _ 0]) (simp add: ex_b_def table_defs)
  then show ?thesis
    by (simp add: ex_b_def table_defs op_defs)
qed

theorem active_scalars_info_fallback_witness:
  "stale ex_cell_only \<and> set (point_keys ex_cell_only) \<subseteq> exclude
   \<and> first_unreserved (cell_keys ex_cell_only) ''c''
   \<and> active_scalars_info accept_all ex_cell_only =
       (ActiveArrayInfo CELL (Some ''c''),
        ex_cell_only\<lparr>m_active_scalars_info := ActiveArrayInfo CELL (Some ''c''),
          CellData := (CellData ex_cell_only)\<lparr>ActiveScalars := Some ''c''\<rparr>\<rparr>)"
proof -
  have s: "stale ex_cell_only"
    by (simp add: stale_def substituted_name_def ex_cell_only_def init_def)
  have p: "set (point_keys ex_cell_only) \<subseteq> exclude"
    by (simp add: ex_cell_only_def init_def fresh_table_def keys_def exclude_def)
  have c: "first_unreserved (cell_keys ex_cell_only) ''c''"
    unfolding first_unreserved_def
    by (rule exI[of _ 1]) (simp add: ex_cell_only_def init_def fresh_table_def keys_def exclude_def)
  from active_scalars_info_fallback[OF s, where st = accept_all] p c
  have "active_scalars_info accept_all ex_cell_only =
       (ActiveArrayInfo CELL (Some ''c''),
        ex_cell_only\<lparr>m_active_scalars_info := ActiveArrayInfo CELL (Some ''c''),
          CellData := (if accept_all Scalars CELL (CellData ex_cell_only) ''c'' < 0
                       then CellData ex_cell_only
                       else (CellData ex_cell_only)\<lparr>ActiveScalars := Some ''c''\<rparr>)\<rparr>)"
    by blast
  with s p c show ?thesis by (simp add: accept_all_def)
qed

subsection \<open>Clearing the active scalars\<close>

text \<open>
  C2 (as amended).  \<^verbatim>\<open>set_active_scalars(None)\<close> returns normally, clears the
  active-scalars pointer of the point and of the cell table, changes no array table and
  leaves \<^verbatim>\<open>_active_scalars_info\<close> and \<^verbatim>\<open>_last_active_scalars_name\<close> as they were.  The next
  read of \<^verbatim>\<open>active_scalars_info\<close> returns association POINT with no name exactly when the
  recorded association is POINT, the recorded name (after the substitution) is absent or in
  neither table, and neither table has an array outside the reserved names.
\<close>

theorem set_active_scalars_clear:
  "set_active_scalars st d None p = Inr (clear_scalars_pointers d)
   \<and> ActiveScalars (PointData (clear_scalars_pointers d)) = None
   \<and> ActiveScalars (CellData (clear_scalars_pointers d)) = None
   \<and> arrays (PointData (clear_scalars_pointers d)) = arrays (PointData d)
   \<and> arrays (CellData (clear_scalars_pointers d)) = arrays (CellData d)
   \<and> FieldData (clear_scalars_pointers d) = FieldData d
   \<and> m_active_scalars_info (clear_scalars_pointers d) = m_active_scalars_info d
   \<and> m_last_active_scalars_name (clear_scalars_pointers d) = m_last_active_scalars_name d
   \<and> (fst (active_scalars_info st (clear_scalars_pointers d)) = ActiveArrayInfo POINT None \<longleftrightarrow>
        association (m_active_scalars_info d) = POINT \<and> stale d
        \<and> set (point_keys d) \<subseteq> exclude \<and> set (cell_keys d) \<subseteq> exclude)"
proof -
  let ?c = "clear_scalars_pointers d"
  have k: "point_keys ?c = point_keys d" "cell_keys ?c = cell_keys d"
    by (simp_all add: clear_scalars_pointers_def)
  have "fst (active_scalars_info st ?c) = ActiveArrayInfo POINT None \<longleftrightarrow>
          name (fst (active_scalars_info st ?c)) = None
          \<and> association (fst (active_scalars_info st ?c)) = POINT"
    by (cases "fst (active_scalars_info st ?c)") auto
  also have "\<dots> \<longleftrightarrow> association (m_active_scalars_info d) = POINT \<and> stale d
        \<and> set (point_keys d) \<subseteq> exclude \<and> set (cell_keys d) \<subseteq> exclude"
    using info_assoc_None[of st ?c] info_name_None[of st ?c] by (auto simp: k)
  finally show ?thesis
    by (simp add: set_active_scalars_None) (simp add: clear_scalars_pointers_def)
qed

text \<open>
  The claim as stated fails on a new dataset with the point array \<open>a\<close>: after the clear
  the property resolves to \<open>a\<close> again.
\<close>

theorem set_active_scalars_clear_counterexample:
  "set_active_scalars accept_all ex_a None CELL = Inr ex_a
   \<and> active_scalars_info accept_all ex_a = (ActiveArrayInfo POINT (Some ''a''), ex_a_active)"
  by (simp add: ex_a_def ex_a_active_def table_defs op_defs)

theorem set_active_scalars_clear_witness:
  "set_active_scalars accept_all ex_tcoords None CELL = Inr (clear_scalars_pointers ex_tcoords)
   \<and> association (m_active_scalars_info ex_tcoords) = POINT \<and> stale ex_tcoords
   \<and> set (point_keys ex_tcoords) \<subseteq> exclude \<and> set (cell_keys ex_tcoords) \<subseteq> exclude
   \<and> fst (active_scalars_info accept_all (clear_scalars_pointers ex_tcoords))
       = ActiveArrayInfo POINT None"
proof -
  have h: "association (m_active_scalars_info ex_tcoords) = POINT \<and> stale ex_tcoords
     \<and> set (point_keys ex_tcoords) \<subseteq> exclude \<and> set (cell_keys ex_tcoords) \<subseteq> exclude"
    by (simp add: ex_tcoords_def table_defs stale_def substituted_name_def)
  with set_active_scalars_clear[where st = accept_all and d = ex_tcoords and p = CELL]
  show ?thesis by simp
qed

subsection \<open>Reserved names\<close>

text \<open>
  C3 (as amended).  On a dataset whose point and cell names are all reserved,
  \<^verbatim>\<open>active_scalars_info\<close> returns an info without name exactly when the recorded name (after
  the substitution) is absent or in neither table; otherwise it returns the recorded info
  unchanged.  On every dataset, an info with a reserved name is only ever the recorded one,
  returned unchanged: the scan never selects a reserved name.  For a recorded reserved name
  the presence test is made on \<^verbatim>\<open>_last_active_scalars_name\<close>.
\<close>

theorem reserved_names:
  "(set (point_keys d) \<subseteq> exclude \<and> set (cell_keys d) \<subseteq> exclude \<longrightarrow>
      (name (fst (active_scalars_info st d)) = None \<longleftrightarrow> stale d)
      \<and> (\<not> stale d \<longrightarrow> active_scalars_info st d = (m_active_scalars_info d, d)))
   \<and> (\<forall>a. name (fst (active_scalars_info st d)) = Some a \<and> a \<in> exclude \<longrightarrow>
         active_scalars_info st d = (m_active_scalars_info d, d))
   \<and> (\<forall>n. name (m_active_scalars_info d) = Some n \<and> n \<in> exclude \<longrightarrow>
         (stale d \<longleftrightarrow>
            (case m_last_active_scalars_name d of
               None \<Rightarrow> True
             | Some l \<Rightarrow> l \<notin> set (point_keys d) \<union> set (cell_keys d))))"
  by (auto simp: info_name_None info_not_stale reserved_name_recorded)
     (auto simp: stale_def substituted_name_def)

text \<open>
  The claim as stated fails where the recorded name and the last active name are the
  reserved \<open>Normals\<close>, still in the point table: the recorded info is returned.
\<close>

theorem reserved_names_counterexample:
  "set (point_keys ex_reserved_backed) \<subseteq> exclude
   \<and> set (cell_keys ex_reserved_backed) \<subseteq> exclude
   \<and> active_scalars_info accept_all ex_reserved_backed
       = (ActiveArrayInfo POINT (Some ''Normals''), ex_reserved_backed)"
  by (simp add: ex_reserved_backed_def table_defs op_defs)

theorem reserved_names_witness:
  "set (point_keys ex_tcoords) \<subseteq> exclude \<and> set (cell_keys ex_tcoords) \<subseteq> exclude
   \<and> stale ex_tcoords \<and> name (fst (active_scalars_info accept_all ex_tcoords)) = None
   \<and> name (m_active_scalars_info ex_reserved_backed) = Some ''Normals''
   \<and> ''Normals'' \<in> exclude \<and> \<not> stale ex_reserved_backed"
proof -
  have h: "set (point_keys ex_tcoords) \<subseteq> exclude \<and> set (cell_keys ex_tcoords) \<subseteq> exclude"
    and s: "stale ex_tcoords"
    by (simp_all add: ex_tcoords_def table_defs stale_def substituted_name_def)
  have n: "name (m_active_scalars_info ex_reserved_backed) = Some ''Normals''"
    and e: "''Normals'' \<in> exclude"
    and l: "m_last_active_scalars_name ex_reserved_backed = Some ''Normals''"
    and k: "''Normals'' \<in> set (point_keys ex_reserved_backed)"
    by (simp_all add: ex_reserved_backed_def table_defs)
  from reserved_names[where d = ex_tcoords and st = accept_all] h s
  have "name (fst (active_scalars_info accept_all ex_tcoords)) = None" by simp
  moreover from reserved_names[where d = ex_reserved_backed and st = accept_all] n e l k
  have "\<not> stale ex_reserved_backed" by simp
  ultimately show ?thesis using h s n e by simp
qed

subsection \<open>Resolution after a clear\<close>

text \<open>
  C4 (as amended).  After \<^verbatim>\<open>set_active_scalars(None)\<close>, on a dataset whose recorded name
  (after the substitution) is absent or in neither table, \<^verbatim>\<open>active_scalars_info\<close> returns
  association POINT and the first point name that is not reserved; where the recorded name
  is still in a table it returns the recorded info.  On every dataset a second read returns
  the same info and leaves the state as the first read left it.
\<close>

theorem resolution_after_clear:
  "set_active_scalars st d None p = Inr (clear_scalars_pointers d)
   \<and> (\<forall>a. first_unreserved (point_keys d) a \<and> stale d \<longrightarrow>
         fst (active_scalars_info st (clear_scalars_pointers d)) = ActiveArrayInfo POINT (Some a))
   \<and> (\<not> stale d \<longrightarrow>
         fst (active_scalars_info st (clear_scalars_pointers d)) = m_active_scalars_info d)
   \<and> active_scalars_info st (snd (active_scalars_info st (clear_scalars_pointers d)))
         = active_scalars_info st (clear_scalars_pointers d)"
proof (intro conjI allI impI)
  fix a
  assume h: "first_unreserved (point_keys d) a \<and> stale d"
  then have "first_arr (PointData d) = Some a" by (simp add: first_arr_Some)
  then show "fst (active_scalars_info st (clear_scalars_pointers d)) = ActiveArrayInfo POINT (Some a)"
    using h by (simp add: info_stale)
next
  assume "\<not> stale d"
  then show "fst (active_scalars_info st (clear_scalars_pointers d)) = m_active_scalars_info d"
    by (simp add: info_not_stale)
qed (simp_all add: set_active_scalars_None info_idem)

text \<open>
  The claim as stated fails where a cell array is recorded as active: the point table has
  the unreserved \<open>a\<close>, and the property still returns the cell array \<open>c\<close>.
\<close>

theorem resolution_after_clear_counterexample:
  "''a'' \<in> set (point_keys ex_cell_active) \<and> ''a'' \<notin> exclude
   \<and> set_active_scalars accept_all ex_cell_active None CELL
       = Inr (clear_scalars_pointers ex_cell_active)
   \<and> fst (active_scalars_info accept_all (clear_scalars_pointers ex_cell_active))
       = ActiveArrayInfo CELL (Some ''c'')"
  by (simp add: ex_pc_def ex_cell_active_def table_defs op_defs)

theorem resolution_after_clear_witness:
  "first_unreserved (point_keys ex_a) ''a'' \<and> stale ex_a
   \<and> fst (active_scalars_info accept_all (clear_scalars_pointers ex_a))
       = ActiveArrayInfo POINT (Some ''a'')"
proof -
  have f: "first_unreserved (point_keys ex_a) ''a''"
    unfolding first_unreserved_def
    by (rule exI[of _ 0]) (simp add: ex_a_def table_defs)
  have s: "stale ex_a"
    by (simp add: ex_a_def table_defs stale_def substituted_name_def)
  with f resolution_after_clear[where st = accept_all and d = ex_a and p = CELL]
  show ?thesis by blast
qed

subsection \<open>\<^verbatim>\<open>rename_array\<close>\<close>

text \<open>
  C5 (as amended).  Where \<open>old_name\<close> is the active-scalars name, a
  \<^verbatim>\<open>rename_array(old_name, new_name)\<close> that returns normally has moved the array, its data
  unchanged, from \<open>old_name\<close> to \<open>new_name\<close> in the point or the cell table it was found in,
  has left the other names of that table and the other tables alone, and has recorded
  \<open>new_name\<close> with that association.  \<^verbatim>\<open>active_scalars_info\<close> then returns the name
  \<open>new_name\<close> exactly when the recorded name, after the substitution, is in a table: always
  for a \<open>new_name\<close> that is not reserved and, for an \<open>old_name\<close> that is not reserved, also
  whenever the point or the cell table has a name that is not reserved.  For an \<open>old_name\<close>
  that is not reserved, a reserved \<open>new_name\<close> and only reserved names left in both tables,
  it returns no name.
\<close>

theorem rename_array_keeps_active:
  assumes "name (fst (active_scalars_info st d)) = Some old"
    and "rename_array st d old new p = Inr d'"
  shows "\<exists>arr field. get_array d old p = (Some arr, Some field) \<and> field \<noteq> NONE
           \<and> map_of (arrays (attributes field d)) old = Some arr
           \<and> map_of (arrays (attributes field d')) new = Some arr
           \<and> (old \<noteq> new \<longrightarrow> map_of (arrays (attributes field d')) old = None)
           \<and> (\<forall>k. k \<noteq> old \<and> k \<noteq> new \<longrightarrow>
                 map_of (arrays (attributes field d')) k = map_of (arrays (attributes field d)) k)
           \<and> (\<forall>a. a \<noteq> field \<longrightarrow> arrays (attributes a d') = arrays (attributes a d))
           \<and> m_active_scalars_info d' = ActiveArrayInfo field (Some new)
           \<and> (name (fst (active_scalars_info st d')) = Some new \<longleftrightarrow> \<not> stale d')
           \<and> (new \<notin> exclude \<longrightarrow> name (fst (active_scalars_info st d')) = Some new)
           \<and> (old \<notin> exclude
                \<and> \<not> (set (point_keys d') \<subseteq> exclude \<and> set (cell_keys d') \<subseteq> exclude) \<longrightarrow>
                name (fst (active_scalars_info st d')) = Some new)
           \<and> (old \<notin> exclude \<and> new \<in> exclude
                \<and> set (point_keys d') \<subseteq> exclude \<and> set (cell_keys d') \<subseteq> exclude \<longrightarrow>
                name (fst (active_scalars_info st d')) = None)"
proof -
  obtain arr field where g: "get_array d old p = (Some arr, Some field)"
    using rename_array_Inr[OF assms(2)] by blast
  let ?d1 = "snd (active_scalars_info st d)"
  let ?tab = "setitem new arr (AList.delete old (arrays (attributes field d)))"
  let ?d2 = "attributes_update field ((attributes field ?d1)\<lparr>arrays := ?tab\<rparr>) ?d1"
  have r: "set_active_scalars st ?d2 (Some new) field = Inr d'"
    using assms unfolding rename_array_unfold[OF g] Let_def by simp
  have tab2: "arrays (attributes field ?d2) = ?tab"
    by (simp add: attributes_arrays_update)
  have "get_array ?d2 new field = (Some arr, Some field)"
    by (rule get_array_preferred) (simp add: tab2 map_of_setitem)
  then have g2: "snd (get_array ?d2 new field) = Some field" by simp
  from arrays_after_activation[OF g2 r]
  have f: "field \<noteq> NONE" and i: "m_active_scalars_info d' = ActiveArrayInfo field (Some new)"
    and l: "m_last_active_scalars_name d' = name (fst (active_scalars_info st ?d2))"
    and a: "\<And>a. arrays (attributes a d') = arrays (attributes a ?d2)" by auto
  have tab': "arrays (attributes field d') = ?tab" by (simp add: a tab2)
  have other: "\<And>a. a \<noteq> field \<Longrightarrow> arrays (attributes a d') = arrays (attributes a d)"
    by (simp add: a attributes_arrays_update info_frame_attributes)
  have pk: "point_keys d' = point_keys ?d2" and ck: "cell_keys d' = cell_keys ?d2"
    using a[of POINT] a[of CELL] by simp_all
  have "map_of ?tab new = Some arr" by (simp add: map_of_setitem)
  then have "new \<in> set (keys (arrays (attributes field d')))"
    using map_of_keys[of ?tab new] by (simp add: tab')
  then have held: "new \<in> set (point_keys d') \<union> set (cell_keys d')"
    using f by (cases field) simp_all
  \<comment> \<open>the read after the rename\<close>
  have iff: "name (fst (active_scalars_info st d')) = Some new \<longleftrightarrow> \<not> stale d'"
  proof (cases "stale d'")
    case False
    then show ?thesis using i by (simp add: info_not_stale)
  next
    case True
    have "name (fst (active_scalars_info st d')) \<noteq> Some new"
    proof
      assume n: "name (fst (active_scalars_info st d')) = Some new"
      from info_stale_unreserved[OF True n] have "new \<notin> exclude" .
      then have "substituted_name d' = Some new" using i by (simp add: substituted_name_def)
      with held have "\<not> stale d'" by (simp add: stale_def)
      with True show False by simp
    qed
    with True show ?thesis by simp
  qed
  have unres: "new \<notin> exclude \<Longrightarrow> \<not> stale d'"
  proof -
    assume "new \<notin> exclude"
    then have "substituted_name d' = Some new" using i by (simp add: substituted_name_def)
    with held show "\<not> stale d'" by (simp add: stale_def)
  qed
  \<comment> \<open>what the read inside \<open>set_active_scalars\<close> left as the last active name\<close>
  have rec2: "m_active_scalars_info ?d2 = m_active_scalars_info ?d1"
    using f by (cases field) simp_all
  have rec1: "name (m_active_scalars_info ?d1) = Some old"
    using assms(1) info_fresh[of st d] by (metis fst_conv)
  have res: "new \<in> exclude \<Longrightarrow> stale d' \<longleftrightarrow>
       (case name (fst (active_scalars_info st ?d2)) of None \<Rightarrow> True
        | Some x \<Rightarrow> x \<notin> set (point_keys d') \<union> set (cell_keys d'))"
    using i l by (simp add: stale_def substituted_name_def)
  have some: "old \<notin> exclude \<Longrightarrow>
      \<not> (set (point_keys d') \<subseteq> exclude \<and> set (cell_keys d') \<subseteq> exclude) \<Longrightarrow> \<not> stale d'"
  proof (cases "new \<in> exclude")
    case False
    then show ?thesis by (rule unres)
  next
    case True
    assume o: "old \<notin> exclude"
      and u: "\<not> (set (point_keys d') \<subseteq> exclude \<and> set (cell_keys d') \<subseteq> exclude)"
    from u have "name (fst (active_scalars_info st ?d2)) \<noteq> None"
      using info_name_None[of st ?d2] by (simp add: pk ck)
    then obtain x where x: "name (fst (active_scalars_info st ?d2)) = Some x" by auto
    have "name (m_active_scalars_info ?d2) = Some x \<longrightarrow> x \<notin> exclude"
      using o rec1 rec2 by auto
    from info_name_held[OF x this] have "x \<in> set (point_keys d') \<union> set (cell_keys d')"
      by (simp add: pk ck)
    with x show ?thesis using res[OF True] by simp
  qed
  have none: "old \<notin> exclude \<Longrightarrow> new \<in> exclude \<Longrightarrow>
      set (point_keys d') \<subseteq> exclude \<and> set (cell_keys d') \<subseteq> exclude \<Longrightarrow>
      name (fst (active_scalars_info st d')) = None"
  proof -
    assume o: "old \<notin> exclude" and n: "new \<in> exclude"
      and u: "set (point_keys d') \<subseteq> exclude \<and> set (cell_keys d') \<subseteq> exclude"
    have "substituted_name ?d2 = Some old"
      using o rec1 rec2 by (simp add: substituted_name_def)
    moreover have "old \<notin> set (point_keys ?d2) \<union> set (cell_keys ?d2)"
      using o u by (auto simp: pk ck)
    ultimately have "stale ?d2" by (simp add: stale_def)
    then have "name (fst (active_scalars_info st ?d2)) = None"
      using u by (simp add: info_name_None pk ck)
    then have "stale d'" using res[OF n] by simp
    then show ?thesis using u by (simp add: info_name_None)
  qed
  show ?thesis
    using g f get_array_found[OF g] other i iff unres some none
    by (intro exI[of _ arr] exI[of _ field]) (simp add: tab' map_of_renamed)
qed

text \<open>
  The claim as stated fails for a reserved new name on a dataset with no other array: the
  renamed array is recorded, and the next read of the property drops it.
\<close>

theorem rename_array_keeps_active_counterexample:
  "name (fst (active_scalars_info accept_all ex_a_active)) = Some ''a''
   \<and> rename_array accept_all ex_a_active ''a'' ''TCoords'' CELL = Inr ex_a_tcoords
   \<and> name (fst (active_scalars_info accept_all ex_a_tcoords)) = None"
  by (simp add: ex_a_def ex_a_active_def ex_a_tcoords_def table_defs op_defs)

theorem rename_array_keeps_active_witness:
  "name (fst (active_scalars_info accept_all ex_ax)) = Some ''a''
   \<and> rename_array accept_all ex_ax ''a'' ''TCoords'' CELL = Inr ex_ax_tcoords
   \<and> ''a'' \<notin> exclude \<and> ''TCoords'' \<in> exclude
   \<and> \<not> (set (point_keys ex_ax_tcoords) \<subseteq> exclude \<and> set (cell_keys ex_ax_tcoords) \<subseteq> exclude)
   \<and> map_of (arrays (PointData ex_ax_tcoords)) ''TCoords'' = Some 1
   \<and> name (fst (active_scalars_info accept_all ex_ax_tcoords)) = Some ''TCoords''"
proof -
  have a: "name (fst (active_scalars_info accept_all ex_ax)) = Some ''a''"
    by (simp add: ex_ax_def table_defs op_defs)
  have r: "rename_array accept_all ex_ax ''a'' ''TCoords'' CELL = Inr ex_ax_tcoords"
    by (simp add: ex_ax_def ex_ax_tcoords_def table_defs op_defs)
  have e: "''a'' \<notin> exclude" "''TCoords'' \<in> exclude" by (simp_all add: exclude_def)
  have u: "\<not> (set (point_keys ex_ax_tcoords) \<subseteq> exclude \<and> set (cell_keys ex_ax_tcoords) \<subseteq> exclude)"
    by (simp add: ex_ax_tcoords_def table_defs)
  have m: "map_of (arrays (PointData ex_ax_tcoords)) ''TCoords'' = Some 1"
    by (simp add: ex_ax_tcoords_def table_defs)
  from rename_array_keeps_active[OF a r] e u
  have "name (fst (active_scalars_info accept_all ex_ax_tcoords)) = Some ''TCoords''" by blast
  with a r e u m show ?thesis by simp
qed

subsection \<open>A rejected activation\<close>




subsection \<open>\<^verbatim>\<open>active_vectors_info\<close>\<close>

text \<open>
  C7 (as amended).  With a vectors name recorded, \<^verbatim>\<open>active_vectors_info\<close> returns the
  recorded info and changes nothing.  With none recorded and no array named \<open>Normals\<close> in
  any table, it returns the recorded info; only the read of the active scalars' name in
  \<^verbatim>\<open>array_names\<close> may have re-resolved the scalars.  With none recorded it adopts an array
  named \<open>Normals\<close> exactly in two cases: the point table has one and accepts it, or the cell
  table has one, neither the point nor the field table has, and the cell table accepts it.
  A negative status raises the activation error; so does a \<open>Normals\<close> held by the cell and
  the field table and not by the point table, which the lookup answers with the preferred
  point association.  A \<open>Normals\<close> in the field table only raises the invalid-field error.
  There is no scan for other vectors.
\<close>

theorem active_vectors_info_adoption:
  "(name (m_active_vectors_info d) \<noteq> None \<longrightarrow>
      active_vectors_info st d = Inr (m_active_vectors_info d, d))
   \<and> (name (m_active_vectors_info d) = None
        \<and> ''Normals'' \<notin> set (point_keys d) \<union> set (cell_keys d) \<union> set (field_keys d) \<longrightarrow>
      active_vectors_info st d = Inr (m_active_vectors_info d, snd (active_scalars_info st d)))
   \<and> (name (m_active_vectors_info d) = None \<and> ''Normals'' \<in> set (point_keys d) \<longrightarrow>
      (let d1 = snd (active_scalars_info st d)
       in active_vectors_info st d =
            (if st Vectors POINT (PointData d1) ''Normals'' < 0
             then Inl (ActivationError, d1)
             else Inr (ActiveArrayInfo POINT (Some ''Normals''),
                       with_active_vectors POINT ''Normals'' d1))))
   \<and> (name (m_active_vectors_info d) = None \<and> ''Normals'' \<notin> set (point_keys d)
        \<and> ''Normals'' \<in> set (cell_keys d) \<and> ''Normals'' \<notin> set (field_keys d) \<longrightarrow>
      (let d1 = snd (active_scalars_info st d)
       in active_vectors_info st d =
            (if st Vectors CELL (CellData d1) ''Normals'' < 0
             then Inl (ActivationError, d1)
             else Inr (ActiveArrayInfo CELL (Some ''Normals''),
                       with_active_vectors CELL ''Normals'' d1))))
   \<and> (name (m_active_vectors_info d) = None \<and> ''Normals'' \<notin> set (point_keys d)
        \<and> ''Normals'' \<in> set (cell_keys d) \<and> ''Normals'' \<in> set (field_keys d) \<longrightarrow>
      (\<exists>d'. active_vectors_info st d = Inl (ActivationError, d')
            \<and> m_active_vectors_info d' = m_active_vectors_info d))
   \<and> (name (m_active_vectors_info d) = None \<and> ''Normals'' \<notin> set (point_keys d)
        \<and> ''Normals'' \<notin> set (cell_keys d) \<and> ''Normals'' \<in> set (field_keys d) \<longrightarrow>
      active_vectors_info st d = Inl (InvalidField, snd (active_scalars_info st d)))"
proof (intro conjI impI)
  assume "name (m_active_vectors_info d) \<noteq> None"
  then show "active_vectors_info st d = Inr (m_active_vectors_info d, d)"
    by (rule active_vectors_info_recorded)
next
  assume "name (m_active_vectors_info d) = None
        \<and> ''Normals'' \<notin> set (point_keys d) \<union> set (cell_keys d) \<union> set (field_keys d)"
  then show "active_vectors_info st d = Inr (m_active_vectors_info d, snd (active_scalars_info st d))"
    by (simp add: active_vectors_info_no_normals)
next
  assume "name (m_active_vectors_info d) = None \<and> ''Normals'' \<in> set (point_keys d)"
  then show "let d1 = snd (active_scalars_info st d)
       in active_vectors_info st d =
            (if st Vectors POINT (PointData d1) ''Normals'' < 0
             then Inl (ActivationError, d1)
             else Inr (ActiveArrayInfo POINT (Some ''Normals''),
                       with_active_vectors POINT ''Normals'' d1))"
    using active_vectors_info_point[of d st] by simp
next
  assume "name (m_active_vectors_info d) = None \<and> ''Normals'' \<notin> set (point_keys d)
        \<and> ''Normals'' \<in> set (cell_keys d) \<and> ''Normals'' \<notin> set (field_keys d)"
  then show "let d1 = snd (active_scalars_info st d)
       in active_vectors_info st d =
            (if st Vectors CELL (CellData d1) ''Normals'' < 0
             then Inl (ActivationError, d1)
             else Inr (ActiveArrayInfo CELL (Some ''Normals''),
                       with_active_vectors CELL ''Normals'' d1))"
    using active_vectors_info_cell_only[of d st] by simp
next
  assume "name (m_active_vectors_info d) = None \<and> ''Normals'' \<notin> set (point_keys d)
        \<and> ''Normals'' \<in> set (cell_keys d) \<and> ''Normals'' \<in> set (field_keys d)"
  then show "\<exists>d'. active_vectors_info st d = Inl (ActivationError, d')
            \<and> m_active_vectors_info d' = m_active_vectors_info d"
    using active_vectors_info_cell_field[of d st] by (simp add: info_frame)
next
  assume "name (m_active_vectors_info d) = None \<and> ''Normals'' \<notin> set (point_keys d)
        \<and> ''Normals'' \<notin> set (cell_keys d) \<and> ''Normals'' \<in> set (field_keys d)"
  then show "active_vectors_info st d = Inl (InvalidField, snd (active_scalars_info st d))"
    using active_vectors_info_field_only[of d st] by simp
qed

text \<open>
  The claim as stated fails on a new dataset whose only array is a cell array named
  \<open>Normals\<close>: no point array has that name, and the cell array is adopted.
\<close>

theorem active_vectors_info_adoption_counterexample:
  "name (m_active_vectors_info ex_cell_normals) = None
   \<and> ''Normals'' \<notin> set (point_keys ex_cell_normals)
   \<and> active_vectors_info accept_all ex_cell_normals
       = Inr (ActiveArrayInfo CELL (Some ''Normals''),
              with_active_vectors CELL ''Normals'' ex_cell_normals)"
  by (simp add: ex_cell_normals_def table_defs op_defs)

theorem active_vectors_info_adoption_witness:
  "name (m_active_vectors_info ex_point_normals) = None
   \<and> ''Normals'' \<in> set (point_keys ex_point_normals)
   \<and> active_vectors_info accept_all ex_point_normals
       = Inr (ActiveArrayInfo POINT (Some ''Normals''),
              with_active_vectors POINT ''Normals''
                (snd (active_scalars_info accept_all ex_point_normals)))
   \<and> name (m_active_vectors_info ex_cell_field_normals) = None
   \<and> ''Normals'' \<notin> set (point_keys ex_cell_field_normals)
   \<and> ''Normals'' \<in> set (cell_keys ex_cell_field_normals)
   \<and> ''Normals'' \<in> set (field_keys ex_cell_field_normals)
   \<and> active_vectors_info accept_all ex_cell_field_normals
       = Inl (ActivationError, ex_cell_field_normals)"
proof -
  have h: "name (m_active_vectors_info ex_point_normals) = None
     \<and> ''Normals'' \<in> set (point_keys ex_point_normals)"
    by (simp add: ex_point_normals_def table_defs)
  have k: "name (m_active_vectors_info ex_cell_field_normals) = None
     \<and> ''Normals'' \<notin> set (point_keys ex_cell_field_normals)
     \<and> ''Normals'' \<in> set (cell_keys ex_cell_field_normals)
     \<and> ''Normals'' \<in> set (field_keys ex_cell_field_normals)"
    by (simp add: ex_cell_field_normals_def table_defs)
  have r: "active_scalars_info accept_all ex_cell_field_normals
             = (ActiveArrayInfo POINT None, ex_cell_field_normals)"
    by (simp add: ex_cell_field_normals_def table_defs op_defs)
  from active_vectors_info_adoption[where d = ex_point_normals and st = accept_all] h
  have 1: "active_vectors_info accept_all ex_point_normals
       = Inr (ActiveArrayInfo POINT (Some ''Normals''),
              with_active_vectors POINT ''Normals''
                (snd (active_scalars_info accept_all ex_point_normals)))"
    by (simp add: Let_def accept_all_def)
  from active_vectors_info_adoption[where d = ex_cell_field_normals and st = accept_all] k
  obtain d' where "active_vectors_info accept_all ex_cell_field_normals = Inl (ActivationError, d')"
    by blast
  moreover from this have "d' = snd (active_scalars_info accept_all ex_cell_field_normals)"
    by (rule active_vectors_info_Inl)
  ultimately have 2: "active_vectors_info accept_all ex_cell_field_normals
       = Inl (ActivationError, ex_cell_field_normals)"
    using r by simp
  from h k 1 2 show ?thesis by simp
qed

text \<open>
  C8 (as amended).  On a dataset with a point array named \<open>Normals\<close>,
  \<^verbatim>\<open>set_active_vectors(None)\<close> records no vectors name, and the next read of
  \<^verbatim>\<open>active_vectors_info\<close> adopts \<open>Normals\<close> again: it returns association POINT and the name
  \<open>Normals\<close>, unless the point table answers a negative status, which raises the activation
  error.
\<close>

theorem active_vectors_info_after_clear:
  "''Normals'' \<in> set (point_keys d) \<longrightarrow>
     set_active_vectors st d None p = Inr (clear_vectors d)
     \<and> name (m_active_vectors_info (clear_vectors d)) = None
     \<and> (let d2 = snd (active_scalars_info st (clear_vectors d))
        in active_vectors_info st (clear_vectors d) =
             (if st Vectors POINT (PointData d2) ''Normals'' < 0
              then Inl (ActivationError, d2)
              else Inr (ActiveArrayInfo POINT (Some ''Normals''),
                        with_active_vectors POINT ''Normals'' d2)))"
proof
  assume h: "''Normals'' \<in> set (point_keys d)"
  have n: "name (m_active_vectors_info (clear_vectors d)) = None"
    by (simp add: clear_vectors_def)
  have m: "''Normals'' \<in> set (point_keys (clear_vectors d))"
    using h by (simp add: clear_vectors_def)
  from active_vectors_info_point[OF n m, of st] n
  show "set_active_vectors st d None p = Inr (clear_vectors d)
     \<and> name (m_active_vectors_info (clear_vectors d)) = None
     \<and> (let d2 = snd (active_scalars_info st (clear_vectors d))
        in active_vectors_info st (clear_vectors d) =
             (if st Vectors POINT (PointData d2) ''Normals'' < 0
              then Inl (ActivationError, d2)
              else Inr (ActiveArrayInfo POINT (Some ''Normals''),
                        with_active_vectors POINT ''Normals'' d2)))"
    by (simp add: set_active_vectors_None)
qed

text \<open>
  The claim as stated fails on a new dataset with the point array \<open>Normals\<close>: after the
  clear the property returns \<open>Normals\<close>.
\<close>

theorem active_vectors_info_after_clear_counterexample:
  "''Normals'' \<in> set (point_keys ex_point_normals)
   \<and> set_active_vectors accept_all ex_point_normals None POINT = Inr ex_point_normals
   \<and> active_vectors_info accept_all ex_point_normals
       = Inr (ActiveArrayInfo POINT (Some ''Normals''),
              with_active_vectors POINT ''Normals'' ex_point_normals)"
  by (simp add: ex_point_normals_def table_defs op_defs)

theorem active_vectors_info_after_clear_witness:
  "''Normals'' \<in> set (point_keys ex_point_normals)
   \<and> clear_vectors ex_point_normals = ex_point_normals
   \<and> active_vectors_info accept_all ex_point_normals
       = Inr (ActiveArrayInfo POINT (Some ''Normals''),
              with_active_vectors POINT ''Normals''
                (snd (active_scalars_info accept_all ex_point_normals)))"
proof -
  have p: "''Normals'' \<in> set (point_keys ex_point_normals)"
    by (simp add: ex_point_normals_def table_defs)
  have c: "clear_vectors ex_point_normals = ex_point_normals"
    by (simp add: ex_point_normals_def table_defs clear_vectors_def)
  from active_vectors_info_after_clear[where d = ex_point_normals and st = accept_all and p = POINT] p c
  show ?thesis by (simp add: Let_def accept_all_def)
qed

subsection \<open>Clearing vectors and tensors\<close>

text \<open>
  C9.  \<^verbatim>\<open>set_active_vectors(None)\<close> and \<^verbatim>\<open>set_active_tensors(None)\<close> return normally and
  leave the recorded info of their role at association POINT with no name, whatever was
  recorded; \<^verbatim>\<open>set_active_scalars(None)\<close> returns normally and leaves
  \<^verbatim>\<open>_active_scalars_info\<close> as it was.
\<close>

theorem set_active_None_resets:
  "(\<exists>d'. set_active_vectors st d None p = Inr d'
          \<and> m_active_vectors_info d' = ActiveArrayInfo POINT None)
   \<and> (\<exists>d'. set_active_tensors st d None p = Inr d'
          \<and> m_active_tensors_info d' = ActiveArrayInfo POINT None)
   \<and> (\<exists>d'. set_active_scalars st d None p = Inr d'
          \<and> m_active_scalars_info d' = m_active_scalars_info d)"
  by (simp add: set_active_vectors_def set_active_tensors_def set_active_scalars_def Let_def)

subsection \<open>\<^verbatim>\<open>copy_meta_from\<close>\<close>




end
